theory Spec2Isabelle
  imports Complex_Main "HOL-Library.Sublist" "HOL-Library.AList"
begin

section \<open>JavaScript values used by the sources\<close>

text \<open>
  Strings are byte lists. A JavaScript \<open>number\<close> is a finite value (kept as the
  rational it denotes; \<open>-0\<close> and \<open>+0\<close> are both \<open>Fin 0\<close>, which no code below can
  tell apart), \<open>NaN\<close> or one of the two infinities. An optional parameter
  \<open>amount?: number\<close> is a \<open>number option\<close>, \<open>None\<close> being \<open>undefined\<close>.
\<close>

datatype number = Fin rat | NaN | PosInfinity | NegInfinity

text \<open>ToBoolean on a number: \<open>0\<close> and \<open>NaN\<close> are falsy, everything else is truthy.\<close>

fun truthy_number :: "number \<Rightarrow> bool" where
  "truthy_number (Fin r) = (r \<noteq> 0)"
| "truthy_number NaN = False"
| "truthy_number PosInfinity = True"
| "truthy_number NegInfinity = True"

text \<open>ToBoolean on \<open>number | undefined\<close>, as in \<open>amount ? a : b\<close>.\<close>

fun truthy :: "number option \<Rightarrow> bool" where
  "truthy None = False"
| "truthy (Some n) = truthy_number n"

text \<open>
  On \<open>string | undefined\<close>, ToBoolean makes \<open>undefined\<close> and the empty string falsy:
  \<open>if (opts.amount)\<close> is the test \<open>Some a\<close> with \<open>a \<noteq> []\<close>.
\<close>

definition digit :: "nat \<Rightarrow> char" where
  "digit n = ''0123456789'' ! n"

fun show_nat :: "nat \<Rightarrow> string" where
  "show_nat n = (if n < 10 then [digit n] else show_nat (n div 10) @ [digit (n mod 10)])"

declare show_nat.simps [simp del]

definition show_int :: "int \<Rightarrow> string" where
  "show_int i = (if i < 0 then CHR ''-'' # show_nat (nat (- i)) else show_nat (nat i))"

definition safe_integer :: "rat \<Rightarrow> bool" where
  "safe_integer r = (r = of_int \<lfloor>r\<rfloor> \<and> \<bar>r\<bar> < 2 ^ 53)"

text \<open>
  Number::toString, as a template literal applies it. A safe integer prints as its decimal
  digits. The text the engine gives every other finite value (fractions, and magnitudes
  from \<open>2^53\<close> on) is the parameter \<open>ext\<close>; no result below depends on it.
\<close>

fun Number_toString :: "(rat \<Rightarrow> string) \<Rightarrow> number \<Rightarrow> string" where
  "Number_toString ext (Fin r) = (if safe_integer r then show_int \<lfloor>r\<rfloor> else ext r)"
| "Number_toString ext NaN = ''NaN''"
| "Number_toString ext PosInfinity = ''Infinity''"
| "Number_toString ext NegInfinity = ''-Infinity''"

text \<open>A template slot \<open>${amount}\<close> holding \<open>number | undefined\<close>.\<close>

fun slot_number :: "(rat \<Rightarrow> string) \<Rightarrow> number option \<Rightarrow> string" where
  "slot_number ext None = ''undefined''"
| "slot_number ext (Some n) = Number_toString ext n"

text \<open>A template slot holding \<open>string | undefined\<close>.\<close>

fun slot_string :: "string option \<Rightarrow> string" where
  "slot_string None = ''undefined''"
| "slot_string (Some s) = s"

text \<open>
  String.prototype.toUpperCase on the ASCII letters; other bytes are left alone (token
  symbols and mint addresses are ASCII).
\<close>

definition upper_char :: "char \<Rightarrow> char" where
  "upper_char c =
     (let n = (of_char c :: nat) in if 97 \<le> n \<and> n \<le> 122 then char_of (n - 32) else c)"

definition toUpperCase :: "string \<Rightarrow> string" where
  "toUpperCase s = map upper_char s"

text \<open>
  Modelled from the spec: the error kinds, for the error classes of the absent
  \<open>lib/actions.js\<close>: "InvalidUrlKind, ActionFetchError (carries status code and response
  body), ActionTimeoutError, ActionSchemaError, ActionTransactionError,
  UntrustedHostBlocked, MissingTemplateParameter". \<open>JsError\<close> stands for any other thrown
  value (a TypeError, a SyntaxError of JSON.parse, an Error of a collaborator), with its
  name.
\<close>

datatype error_kind =
    InvalidUrlKind
  | ActionFetchError nat string
  | ActionTimeoutError
  | ActionSchemaError
  | ActionTransactionError
  | UntrustedHostBlocked
  | MissingTemplateParameter
  | JsError string


section \<open>markets.ts, part 1: the Dialect Markets API client\<close>

datatype action_name = deposit | withdraw | borrow | repay | claimRewards

text \<open>
  DialectMarket, with the fields the client reads. Markets are decoded from a JSON
  response body, whose numbers are finite, so \<open>depositApy\<close> and \<open>totalDepositUsd\<close> are
  rationals. \<open>actions\<close> maps an action name to the \<open>blinkUrl\<close> of its entry.
\<close>

record DialectMarket =
  market_id :: string
  provider_id :: string
  token_symbol :: string
  depositApy :: rat
  totalDepositUsd :: rat
  actions :: "action_name \<Rightarrow> string option"

text \<open>The options of \<open>listMarkets\<close> and of \<open>findBestYield\<close>.\<close>

record list_options =
  opt_provider :: "string option"
  opt_type :: "string option"
  opt_token :: "string option"
  opt_limit :: "number option"

record yield_options =
  minApy :: "number option"
  minTvl :: "number option"
  providers :: "string list option"

text \<open>
  \<open>MarketsClient.fetch\<close> is the one network access of the client: it is a parameter
  \<open>api\<close>, from the endpoint and the query parameters to the decoded body or the error
  thrown.
\<close>

type_synonym 'e markets_api = "string \<Rightarrow> (string \<times> string) list \<Rightarrow> 'e + DialectMarket list"

definition listMarkets ::
  "(rat \<Rightarrow> string) \<Rightarrow> 'e markets_api \<Rightarrow> list_options option \<Rightarrow> 'e + DialectMarket list" where
  "listMarkets ext api options =
     (let p1 = (case Option.bind options opt_provider of
                  Some v \<Rightarrow> if v \<noteq> [] then [(''provider'', v)] else [] | None \<Rightarrow> []);
          p2 = (case Option.bind options opt_type of
                  Some v \<Rightarrow> if v \<noteq> [] then [(''type'', v)] else [] | None \<Rightarrow> []);
          p3 = (case Option.bind options opt_token of
                  Some v \<Rightarrow> if v \<noteq> [] then [(''token'', v)] else [] | None \<Rightarrow> []);
          p4 = (case Option.bind options opt_limit of
                  Some n \<Rightarrow> if truthy_number n then [(''limit'', Number_toString ext n)] else []
                | None \<Rightarrow> [])
      in api ''/markets'' (p1 @ p2 @ p3 @ p4))"

text \<open>\<open>a < b\<close> for a finite \<open>a\<close> and any number \<open>b\<close>; a comparison with \<open>NaN\<close> is false.\<close>

fun less_number :: "rat \<Rightarrow> number \<Rightarrow> bool" where
  "less_number a (Fin b) = (a < b)"
| "less_number a NaN = False"
| "less_number a PosInfinity = True"
| "less_number a NegInfinity = False"

text \<open>The callback of \<open>filter\<close> in \<open>findBestYield\<close>.\<close>

definition keeps :: "yield_options option \<Rightarrow> DialectMarket \<Rightarrow> bool" where
  "keeps options m =
     (if (case Option.bind options minApy of
            Some a \<Rightarrow> truthy_number a \<and> less_number (depositApy m) a | None \<Rightarrow> False)
      then False
      else if (case Option.bind options minTvl of
            Some t \<Rightarrow> truthy_number t \<and> less_number (totalDepositUsd m) t | None \<Rightarrow> False)
      then False
      else if (case Option.bind options providers of
            Some ps \<Rightarrow> provider_id m \<notin> set ps | None \<Rightarrow> False)
      then False
      else True)"

text \<open>
  \<open>Array.prototype.sort\<close> with a comparator: a stable sort that puts \<open>a\<close> before \<open>b\<close>
  when \<open>cmp a b \<le> 0\<close>. The comparator of \<open>findBestYield\<close> is
  \<open>(a, b) => b.depositApy - a.depositApy\<close>; on finite values the sign of the
  floating-point difference is the sign of the exact one.
\<close>

fun insert_by :: "('a \<Rightarrow> 'a \<Rightarrow> rat) \<Rightarrow> 'a \<Rightarrow> 'a list \<Rightarrow> 'a list" where
  "insert_by cmp x [] = [x]"
| "insert_by cmp x (y # ys) = (if cmp x y \<le> 0 then x # y # ys else y # insert_by cmp x ys)"

definition sort_by :: "('a \<Rightarrow> 'a \<Rightarrow> rat) \<Rightarrow> 'a list \<Rightarrow> 'a list" where
  "sort_by cmp xs = foldr (insert_by cmp) xs []"

definition byApyDesc :: "DialectMarket \<Rightarrow> DialectMarket \<Rightarrow> rat" where
  "byApyDesc a b = depositApy b - depositApy a"

definition findBestYield ::
  "(rat \<Rightarrow> string) \<Rightarrow> 'e markets_api \<Rightarrow> string \<Rightarrow> yield_options option \<Rightarrow> 'e + DialectMarket list" where
  "findBestYield ext api tokenSymbol options =
     (case listMarkets ext api
             (Some \<lparr>opt_provider = None, opt_type = Some ''yield'',
                    opt_token = Some tokenSymbol, opt_limit = None\<rparr>) of
        Inl e \<Rightarrow> Inl e
      | Inr markets \<Rightarrow> Inr (sort_by byApyDesc (filter (keeps options) markets)))"

definition getBlinkUrl :: "DialectMarket \<Rightarrow> action_name \<Rightarrow> string option" where
  "getBlinkUrl market action =
     (case actions market action of
        None \<Rightarrow> None
      | Some blinkUrl \<Rightarrow>
          Some (if prefix ''blink:'' blinkUrl then drop 6 blinkUrl else blinkUrl))"


section \<open>markets.ts, part 2: token discovery and URL builders\<close>

definition COMMON_TOKENS :: "(string \<times> string) list" where
  "COMMON_TOKENS =
    [(''SOL'', ''So11111111111111111111111111111111111111112''),
     (''USDC'', ''EPjFWdd5AufqSSqeM2qN1xzybapC8G4wEGGkZwyTDt1v''),
     (''USDT'', ''Es9vMFrzaCERmJfrF4H2FYD4KCoNkY11McCe8BenwNYB''),
     (''PYUSD'', ''2b1kV6DkPAnxd5ixfnxCpjxmKwqjjaYmCZfHsFu24GXo''),
     (''UXD'', ''7kbnvuGBxxj8AG9qp8Scn56muWGaRaFqxg1FsRp3PaFT''),
     (''jitoSOL'', ''J1toso1uCk3RLmjorhTtrVwY9HJ7X8V9yYac6Y7kGCPn''),
     (''mSOL'', ''mSoLzYCxHdYgdzU16g5QSh3i5K3z3KZK7ytfqcJm7So''),
     (''bSOL'', ''bSo13r4TkiE4KumL71LsHTPpL2euBYLFx6h9HP3piy1''),
     (''INF'', ''5oVNBeEEQvYi1cX3ir8Dx5n1P7pdxydbGF2X4TxVusJm''),
     (''JUP'', ''JUPyiwrYJFskUPiHa7hkeR8VUtAeFoSYbKedZNsDvCN''),
     (''RAY'', ''4k3Dyjzvzp8eMZWUXbBCjEvwSkkk59S5iCNLY3QrkX6R''),
     (''ORCA'', ''orcaEKTdK7LKz57vaAYr9QeNsVEPfiu6QeMU1kektZE''),
     (''MNDE'', ''MNDEFzGvMt87ueuHvVU9VcTqsAP5b3fTGPsHuuPA5ey''),
     (''JLP'', ''27G8MtK7VtTcCHkpASjSDdkWWYfoqT6ggEuKidVJidD4''),
     (''BONK'', ''DezXAZ8z7PnrnRJjz3wXBoRgixCa6xjnB7YaB1pPB263''),
     (''WIF'', ''EKpQGSJtjMFqKZ9KQanSqYXRcF8fBopzLHYxdM65zcjm''),
     (''POPCAT'', ''7GCihgDB8fe6KNjn2MYtkzZcRjQy3t9GHdC8uHYmW2hr''),
     (''MYRO'', ''HhJpBhRRn4g56VsyLuT8DL5Bv31HkXqsrahTTUCZeZg4''),
     (''PYTH'', ''HZ1JovNiVvGrGNiiYvEozEVgZ58xaU3RKwX8eACQBCt3''),
     (''HNT'', ''hntyVP6YFm1Hg25TN9WGLqM12b8TQmcknKrdu1oxWux''),
     (''RENDER'', ''rndrizKT3MK1iimdxRdWabcF7Zg7AR5T4nud4EkHBof''),
     (''W'', ''85VBFQZC9TZkfaptBWjvUw7YbZjy52A6mjtPGjstQAmQ'')]"

text \<open>
  \<open>COMMON_TOKENS[key]\<close>. Every value of the table is a non-empty string, so the lookup is
  truthy exactly when the key is in the table.
\<close>

definition common_token :: "string \<Rightarrow> string option" where
  "common_token key = map_of COMMON_TOKENS key"

definition resolveTokenMint :: "string \<Rightarrow> string" where
  "resolveTokenMint tokenOrMint =
     (let upper = toUpperCase tokenOrMint
      in case common_token upper of Some mint \<Rightarrow> mint | None \<Rightarrow> tokenOrMint)"

definition buildJupiterSwapUrl ::
  "(rat \<Rightarrow> string) \<Rightarrow> string \<Rightarrow> string \<Rightarrow> number option \<Rightarrow> string" where
  "buildJupiterSwapUrl ext inputToken outputToken amount =
     (let base = ''https://worker.jup.ag/blinks/swap'';
          inputUpper = toUpperCase inputToken;
          outputUpper = toUpperCase outputToken
      in case (common_token inputUpper, common_token outputUpper) of
           (Some inputMint, Some outputMint) \<Rightarrow>
             if truthy amount
             then base @ ''/'' @ inputMint @ ''/'' @ outputMint @ ''/'' @ slot_number ext amount
             else base @ ''/'' @ inputUpper @ ''-'' @ outputUpper
         | _ \<Rightarrow>
             (let inputMint = resolveTokenMint inputToken;
                  outputMint = resolveTokenMint outputToken
              in if truthy amount
                 then base @ ''/'' @ inputMint @ ''/'' @ outputMint @ ''/'' @ slot_number ext amount
                 else base @ ''/'' @ inputMint @ ''-'' @ outputMint))"

text \<open>
  The signature of \<open>buildRaydiumSwapUrl\<close> requires \<open>amount\<close>; it is a \<open>number option\<close>
  here as well, \<open>None\<close> being the \<open>undefined\<close> a JavaScript caller may leave.
\<close>

definition buildRaydiumSwapUrl ::
  "(rat \<Rightarrow> string) \<Rightarrow> string \<Rightarrow> string \<Rightarrow> number option \<Rightarrow> string" where
  "buildRaydiumSwapUrl ext inputMint outputMint amount =
     (let input = resolveTokenMint inputMint;
          output = resolveTokenMint outputMint
      in ''https://share.raydium.io/dialect/actions/swap/tx?inputMint='' @ input
           @ ''&outputMint='' @ output @ ''&amount='' @ slot_number ext amount)"

definition buildKaminoDepositUrl :: "(rat \<Rightarrow> string) \<Rightarrow> string \<Rightarrow> number option \<Rightarrow> string" where
  "buildKaminoDepositUrl ext vaultSlug amount =
     (let base = ''https://kamino.dial.to/api/v0/lend/'' @ vaultSlug @ ''/deposit''
      in if truthy amount then base @ ''?amount='' @ slot_number ext amount else base)"

definition buildKaminoWithdrawUrl :: "(rat \<Rightarrow> string) \<Rightarrow> string \<Rightarrow> number option \<Rightarrow> string" where
  "buildKaminoWithdrawUrl ext vaultSlug amount =
     (let base = ''https://kamino.dial.to/api/v0/lend/'' @ vaultSlug @ ''/withdraw''
      in if truthy amount then base @ ''?amount='' @ slot_number ext amount else base)"

definition buildJitoStakeUrl :: "(rat \<Rightarrow> string) \<Rightarrow> number option \<Rightarrow> string" where
  "buildJitoStakeUrl ext amount =
     (if truthy amount then ''https://jito.network/stake/amount/'' @ slot_number ext amount
      else ''https://jito.network/stake'')"

definition buildMagicEdenBuyUrl :: "string \<Rightarrow> string" where
  "buildMagicEdenBuyUrl nftMint = ''https://api-mainnet.magiceden.dev/actions/buyNow/'' @ nftMint"

definition buildTensorBuyFloorUrl :: "string \<Rightarrow> string" where
  "buildTensorBuyFloorUrl collection = ''https://tensor.dial.to/buy-floor/'' @ collection"

text \<open>
  The builders as a JavaScript caller reaches them. The TypeScript signatures require the
  string parameters, but types are erased at run time: an argument left out is
  \<open>undefined\<close> (\<open>None\<close>). A template slot then prints the text \<open>undefined\<close>, and a method
  call on it (\<open>inputToken.toUpperCase()\<close>, in \<open>buildJupiterSwapUrl\<close> and in
  \<open>resolveTokenMint\<close>) throws a TypeError. The result is the value returned or the value
  thrown.
\<close>

definition TypeError :: error_kind where
  "TypeError = JsError ''TypeError''"

definition call_buildKaminoDepositUrl ::
  "(rat \<Rightarrow> string) \<Rightarrow> string option \<Rightarrow> number option \<Rightarrow> error_kind + string" where
  "call_buildKaminoDepositUrl ext vaultSlug amount =
     Inr (buildKaminoDepositUrl ext (slot_string vaultSlug) amount)"

definition call_buildKaminoWithdrawUrl ::
  "(rat \<Rightarrow> string) \<Rightarrow> string option \<Rightarrow> number option \<Rightarrow> error_kind + string" where
  "call_buildKaminoWithdrawUrl ext vaultSlug amount =
     Inr (buildKaminoWithdrawUrl ext (slot_string vaultSlug) amount)"

definition call_buildJitoStakeUrl :: "(rat \<Rightarrow> string) \<Rightarrow> number option \<Rightarrow> error_kind + string" where
  "call_buildJitoStakeUrl ext amount = Inr (buildJitoStakeUrl ext amount)"

definition call_buildJupiterSwapUrl ::
  "(rat \<Rightarrow> string) \<Rightarrow> string option \<Rightarrow> string option \<Rightarrow> number option \<Rightarrow> error_kind + string" where
  "call_buildJupiterSwapUrl ext inputToken outputToken amount =
     (case inputToken of
        None \<Rightarrow> Inl TypeError
      | Some i \<Rightarrow>
          (case outputToken of
             None \<Rightarrow> Inl TypeError
           | Some out \<Rightarrow> Inr (buildJupiterSwapUrl ext i out amount)))"

definition call_buildRaydiumSwapUrl ::
  "(rat \<Rightarrow> string) \<Rightarrow> string option \<Rightarrow> string option \<Rightarrow> number option \<Rightarrow> error_kind + string" where
  "call_buildRaydiumSwapUrl ext inputMint outputMint amount =
     (case inputMint of
        None \<Rightarrow> Inl TypeError
      | Some i \<Rightarrow>
          (case outputMint of
             None \<Rightarrow> Inl TypeError
           | Some out \<Rightarrow> Inr (buildRaydiumSwapUrl ext i out amount)))"

definition call_buildMagicEdenBuyUrl :: "string option \<Rightarrow> error_kind + string" where
  "call_buildMagicEdenBuyUrl nftMint = Inr (buildMagicEdenBuyUrl (slot_string nftMint))"

definition call_buildTensorBuyFloorUrl :: "string option \<Rightarrow> error_kind + string" where
  "call_buildTensorBuyFloorUrl collection = Inr (buildTensorBuyFloorUrl (slot_string collection))"


section \<open>cli.ts: the commands\<close>

text \<open>
  \<open>Record<string, string | number>\<close>, in insertion order. \<open>Object.assign\<close> writes each
  entry of the source in turn: an existing key keeps its place and takes the new value, a
  new key goes to the end.
\<close>

datatype param_value = PString string | PNumber number

type_synonym params = "(string \<times> param_value) list"

definition Object_assign :: "params \<Rightarrow> params \<Rightarrow> params" where
  "Object_assign target source = fold (\<lambda>(k, v). AList.update k v) source target"

record Wallet =
  address :: string

record Connection =
  rpcEndpoint :: string

record BlinkTransaction =
  transaction :: string
  tx_message :: "string option"

record SimulationResult =
  sim_success :: bool
  sim_unitsConsumed :: "number option"
  sim_error :: "string option"

record LinkedAction =
  label :: string
  href :: string
  parameters :: "string list"

record InspectResult =
  result_url :: string
  result_trusted :: bool
  result_title :: string
  result_actions :: "LinkedAction list"

record Health =
  healthy :: bool
  slot :: "number option"
  version :: "string option"

type_synonym balances = "(string \<times> number) list"

text \<open>The options commander hands to the \<open>execute\<close> action.\<close>

record execute_opts =
  opt_amount :: "string option"
  opt_dryRun :: bool
  opt_params :: "string option"

text \<open>
  What a command does that can be seen from outside: the collaborator calls it makes, the
  lines it logs through \<open>info\<close>, \<open>success\<close> and \<open>error\<close>, and the objects it prints
  through \<open>console.log(formatOutput(...))\<close>. \<open>OutProtocols\<close> and \<open>OutTrustedHosts\<close> are
  the tables of \<open>protocols.js\<close> and \<open>actions.js\<close>; \<open>OutStatus\<close> carries the fields of the
  status report that are not constants of those tables.
\<close>

datatype printed =
    OutAddress string
  | OutBalances balances
  | OutProtocols
  | OutTrustedHosts
  | OutInspect InspectResult
  | OutSimulated bool "number option" "string option" "string option" bool
  | OutSubmitted string string "string option" bool
  | OutSimulation SimulationResult
  | OutSignature string "string option"
  | OutStatus string bool "number option" "string option" string

datatype call =
    Wallet_fromEnv
  | GetConnection
  | JSON_parse string
  | IsTrustedHost string
  | GetTransaction string string "params option"
  | Simulate BlinkTransaction
  | SignAndSend BlinkTransaction Wallet
  | Inspect string
  | GetWalletTokenBalances string
  | GetAllBalances Wallet
  | CheckConnection

datatype event = Call call | Info string | Success string | Error string | Print printed

text \<open>
  The modules the commands import (\<open>wallet.js\<close>, \<open>connection.js\<close>, \<open>blinks.js\<close>,
  \<open>endpoints.js\<close>) and \<open>JSON.parse\<close> are parameters: each function gives the value
  returned or the value thrown. \<open>'e\<close> is the type of thrown values; the commands read
  only \<open>message\<close> and \<open>details\<close> of one. \<open>getConnection\<close> stands for \<open>getConnection()\<close>
  followed by \<open>new BlinksExecutor(connection)\<close> where a command builds one, and
  \<open>blinks_signAndSend tx wallet\<close> for \<open>blinks.signAndSend(tx, wallet.getSigner())\<close>.
  \<open>details_message d\<close> is what \<open>JSON.parse(d).message\<close> gives inside the \<open>try\<close> of
  the handler of \<open>execute\<close>: \<open>None\<close> when that throws, \<open>Some None\<close> when the message is
  falsy, \<open>Some (Some m)\<close> when it prints as \<open>m\<close>.
\<close>

record 'e collaborators =
  wallet_fromEnv :: "'e + Wallet"
  wallet_getAllBalances :: "Wallet \<Rightarrow> Connection \<Rightarrow> 'e + balances"
  getWalletTokenBalances :: "Connection \<Rightarrow> string \<Rightarrow> 'e + balances"
  getConnection :: "'e + Connection"
  checkConnection :: "Connection \<Rightarrow> 'e + Health"
  json_parse :: "string \<Rightarrow> 'e + params"
  blinks_isTrustedHost :: "string \<Rightarrow> 'e + bool"
  blinks_getTransaction :: "string \<Rightarrow> string \<Rightarrow> params option \<Rightarrow> 'e + BlinkTransaction"
  blinks_simulate :: "BlinkTransaction \<Rightarrow> 'e + SimulationResult"
  blinks_signAndSend :: "BlinkTransaction \<Rightarrow> Wallet \<Rightarrow> 'e + string"
  blinks_inspect :: "string \<Rightarrow> 'e + InspectResult"
  TOKENS :: "string \<Rightarrow> string option"
  err_message :: "'e \<Rightarrow> string"
  err_details :: "'e \<Rightarrow> string option"
  details_message :: "string \<Rightarrow> string option option"

text \<open>
  A block of statements: its outcome (the value, or the value thrown) and the events so
  far. \<open>and_then\<close> sequences two blocks; a throw skips the rest. \<open>attempt\<close> is a
  \<open>try\<close> whose empty \<open>catch\<close> leaves a default in place.
\<close>

type_synonym ('e, 'a) block = "('e + 'a) \<times> event list"

definition and_then :: "('e, 'a) block \<Rightarrow> ('a \<Rightarrow> ('e, 'b) block) \<Rightarrow> ('e, 'b) block" where
  "and_then m f =
     (case m of
        (Inl e, t) \<Rightarrow> (Inl e, t)
      | (Inr a, t) \<Rightarrow> (case f a of (r, t') \<Rightarrow> (r, t @ t')))"

definition calling :: "call \<Rightarrow> 'e + 'a \<Rightarrow> ('e, 'a) block" where
  "calling c r = (r, [Call c])"

definition emit :: "event \<Rightarrow> ('e, unit) block" where
  "emit ev = (Inr (), [ev])"

definition emit_all :: "event list \<Rightarrow> ('e, unit) block" where
  "emit_all evs = (Inr (), evs)"

definition skip :: "('e, unit) block" where
  "skip = (Inr (), [])"

definition value_of :: "'a \<Rightarrow> ('e, 'a) block" where
  "value_of a = (Inr a, [])"

definition attempt :: "('e, 'a) block \<Rightarrow> 'a \<Rightarrow> ('e, 'a) block" where
  "attempt m dflt = (case m of (Inl e, t) \<Rightarrow> (Inr dflt, t) | (Inr a, t) \<Rightarrow> (Inr a, t))"

record run =
  events :: "event list"
  exit_code :: nat

text \<open>
  The handler every command but \<open>execute\<close> wraps its action in:
  \<open>catch (e) { error(e.message); process.exit(1); }\<close>. A process whose action returns
  ends with code 0.
\<close>

definition catching :: "'e collaborators \<Rightarrow> ('e, unit) block \<Rightarrow> run" where
  "catching env body =
     (case body of
        (Inr u, t) \<Rightarrow> \<lparr>events = t, exit_code = 0\<rparr>
      | (Inl e, t) \<Rightarrow> \<lparr>events = t @ [Error (err_message env e)], exit_code = 1\<rparr>)"

subsection \<open>wallet, protocols, trusted-hosts, status\<close>

definition wallet_address_action :: "'e collaborators \<Rightarrow> ('e, unit) block" where
  "wallet_address_action env =
     and_then (calling Wallet_fromEnv (wallet_fromEnv env)) (\<lambda>wallet.
     emit (Print (OutAddress (address wallet))))"

definition wallet_balance_action :: "'e collaborators \<Rightarrow> string option \<Rightarrow> ('e, unit) block" where
  "wallet_balance_action env opt_wallet =
     and_then (calling GetConnection (getConnection env)) (\<lambda>connection.
     case opt_wallet of
       Some w \<Rightarrow>
         if w \<noteq> []
         then and_then (calling (GetWalletTokenBalances w)
                          (getWalletTokenBalances env connection w)) (\<lambda>balances.
              emit (Print (OutBalances balances)))
         else and_then (calling Wallet_fromEnv (wallet_fromEnv env)) (\<lambda>wallet.
              and_then (calling (GetAllBalances wallet)
                          (wallet_getAllBalances env wallet connection)) (\<lambda>balances.
              emit (Print (OutBalances balances))))
     | None \<Rightarrow>
         and_then (calling Wallet_fromEnv (wallet_fromEnv env)) (\<lambda>wallet.
         and_then (calling (GetAllBalances wallet)
                     (wallet_getAllBalances env wallet connection)) (\<lambda>balances.
         emit (Print (OutBalances balances)))))"

text \<open>\<open>protocols\<close> and \<open>trusted-hosts\<close> format a table and print it; they call nothing.\<close>

definition protocols_action :: "'e collaborators \<Rightarrow> ('e, unit) block" where
  "protocols_action env = emit (Print OutProtocols)"

definition trusted_hosts_action :: "'e collaborators \<Rightarrow> ('e, unit) block" where
  "trusted_hosts_action env = emit (Print OutTrustedHosts)"

definition status_action :: "'e collaborators \<Rightarrow> ('e, unit) block" where
  "status_action env =
     and_then (calling GetConnection (getConnection env)) (\<lambda>connection.
     and_then (calling CheckConnection (checkConnection env connection)) (\<lambda>health.
     and_then (attempt (and_then (calling Wallet_fromEnv (wallet_fromEnv env)) (\<lambda>w.
                          value_of (address w)))
                 ''Not configured'') (\<lambda>wallet.
     emit (Print (OutStatus (rpcEndpoint connection) (healthy health) (slot health)
                    (version health) wallet)))))"

subsection \<open>inspect and execute\<close>

text \<open>The \<open>try\<close> block of the \<open>inspect\<close> command.\<close>

definition inspect_action :: "'e collaborators \<Rightarrow> string \<Rightarrow> ('e, unit) block" where
  "inspect_action env url =
     and_then (calling GetConnection (getConnection env)) (\<lambda>connection.
     and_then (calling (Inspect url) (blinks_inspect env url)) (\<lambda>result.
     emit (Print (OutInspect result))))"

definition inspect_command :: "'e collaborators \<Rightarrow> string \<Rightarrow> run" where
  "inspect_command env url = catching env (inspect_action env url)"

text \<open>The statements of the \<open>execute\<close> action that build \<open>params\<close>.\<close>

definition build_params :: "'e collaborators \<Rightarrow> execute_opts \<Rightarrow> ('e, params) block" where
  "build_params env opts =
     (let params = (case opt_amount opts of
                      Some a \<Rightarrow> if a \<noteq> [] then [(''amount'', PString a)] else []
                    | None \<Rightarrow> [])
      in case opt_params opts of
           None \<Rightarrow> value_of params
         | Some json \<Rightarrow>
             if json \<noteq> []
             then and_then (calling (JSON_parse json) (json_parse env json)) (\<lambda>parsed.
                  value_of (Object_assign params parsed))
             else value_of params)"

text \<open>The \<open>try\<close> block of the \<open>execute\<close> command.\<close>

definition execute_action :: "'e collaborators \<Rightarrow> string \<Rightarrow> execute_opts \<Rightarrow> ('e, unit) block" where
  "execute_action env url opts =
     and_then (calling Wallet_fromEnv (wallet_fromEnv env)) (\<lambda>wallet.
     and_then (calling GetConnection (getConnection env)) (\<lambda>connection.
     and_then (build_params env opts) (\<lambda>params.
     and_then (calling (IsTrustedHost url) (blinks_isTrustedHost env url)) (\<lambda>trusted.
     and_then (if \<not> trusted
               then emit (Info ''Warning: This URL is not from a verified trusted host'')
               else skip) (\<lambda>u.
     and_then (emit (Info ''Fetching transaction from action endpoint...'')) (\<lambda>u.
     and_then (calling (GetTransaction url (address wallet) (Some params))
                 (blinks_getTransaction env url (address wallet) (Some params))) (\<lambda>blinkTx.
     if opt_dryRun opts
     then and_then (calling (Simulate blinkTx) (blinks_simulate env blinkTx)) (\<lambda>simResult.
          emit (Print (OutSimulated (sim_success simResult) (sim_unitsConsumed simResult)
                         (sim_error simResult) (tx_message blinkTx) trusted)))
     else and_then (emit (Info ''Signing and sending transaction...'')) (\<lambda>u.
          and_then (calling (SignAndSend blinkTx wallet)
                      (blinks_signAndSend env blinkTx wallet)) (\<lambda>signature.
          and_then (emit (Success ''Transaction confirmed!'')) (\<lambda>u.
          emit (Print (OutSubmitted signature (''https://solscan.io/tx/'' @ signature)
                         (tx_message blinkTx) trusted))))))))))))"

text \<open>The arrow that starts a detail line, in UTF-8.\<close>

definition arrow :: string where
  "arrow = ''  '' @ [CHR 0xE2, CHR 0x86, CHR 0x92] @ '' ''"

text \<open>The \<open>catch\<close> block of the \<open>execute\<close> command, up to \<open>process.exit(1)\<close>.\<close>

definition execute_report :: "'e collaborators \<Rightarrow> 'e \<Rightarrow> event list" where
  "execute_report env err =
     Error (err_message env err) #
     (case err_details env err of
        None \<Rightarrow> []
      | Some d \<Rightarrow>
          if d = [] then []
          else (case details_message env d of
                  Some (Some m) \<Rightarrow> [Error (arrow @ m)]
                | Some None \<Rightarrow> []
                | None \<Rightarrow> if d \<noteq> err_message env err then [Error (arrow @ d)] else []))"

definition execute_command :: "'e collaborators \<Rightarrow> string \<Rightarrow> execute_opts \<Rightarrow> run" where
  "execute_command env url opts =
     (case execute_action env url opts of
        (Inr u, t) \<Rightarrow> \<lparr>events = t, exit_code = 0\<rparr>
      | (Inl e, t) \<Rightarrow> \<lparr>events = t @ execute_report env e, exit_code = 1\<rparr>)"

subsection \<open>The protocol commands\<close>

text \<open>
  The thirteen commands under \<open>kamino\<close>, \<open>jupiter\<close>, \<open>lulo\<close>, \<open>drift\<close>, \<open>sanctum\<close>,
  \<open>jito\<close> and \<open>raydium\<close> have one body. They differ in the action URL, in the params
  handed to \<open>getTransaction\<close> (none for the two swaps), in the lines logged before the
  request, in the line logged after a confirmation, and in whether the printed object
  has an \<open>explorer\<close> link.
\<close>

record protocol_request =
  req_url :: string
  req_params :: "params option"
  req_info :: "string list"
  req_done :: string
  req_explorer :: bool

definition protocol_action ::
  "'e collaborators \<Rightarrow> protocol_request \<Rightarrow> bool \<Rightarrow> ('e, unit) block" where
  "protocol_action env req dryRun =
     and_then (calling Wallet_fromEnv (wallet_fromEnv env)) (\<lambda>wallet.
     and_then (calling GetConnection (getConnection env)) (\<lambda>connection.
     and_then (emit_all (map Info (req_info req))) (\<lambda>u.
     and_then (calling (GetTransaction (req_url req) (address wallet) (req_params req))
                 (blinks_getTransaction env (req_url req) (address wallet) (req_params req)))
       (\<lambda>blinkTx.
     if dryRun
     then and_then (calling (Simulate blinkTx) (blinks_simulate env blinkTx)) (\<lambda>simResult.
          emit (Print (OutSimulation simResult)))
     else and_then (calling (SignAndSend blinkTx wallet)
                      (blinks_signAndSend env blinkTx wallet)) (\<lambda>signature.
          and_then (emit (Success (req_done req))) (\<lambda>u.
          emit (Print (OutSignature signature
                         (if req_explorer req then Some (''https://solscan.io/tx/'' @ signature)
                          else None)))))))))"

text \<open>\<open>TOKENS[symbol.toUpperCase()] || symbol\<close>.\<close>

definition token_or_self :: "'e collaborators \<Rightarrow> string \<Rightarrow> string" where
  "token_or_self env symbol =
     (case TOKENS env (toUpperCase symbol) of
        Some mint \<Rightarrow> if mint \<noteq> [] then mint else symbol
      | None \<Rightarrow> symbol)"

datatype command =
    WalletAddress
  | WalletBalance "string option"
  | Protocols
  | TrustedHosts
  | InspectUrl string
  | ExecuteUrl string execute_opts
  | KaminoDeposit string string bool
  | KaminoWithdraw string string bool
  | KaminoBorrow string string string bool
  | KaminoRepay string string string bool
  | KaminoMultiply string string string string "string option" bool
  | JupiterSwap string string string bool
  | LuloDeposit string string bool
  | LuloWithdraw string string bool
  | DriftVaultDeposit string string bool
  | DriftVaultWithdraw string string bool
  | SanctumStake string string bool
  | JitoStake string bool
  | RaydiumSwap string string string bool
  | Status

definition SOL_MINT :: string where
  "SOL_MINT = ''So11111111111111111111111111111111111111112''"

text \<open>
  The \<open>try\<close> block of each command (for \<open>protocols\<close> and \<open>trusted-hosts\<close>, which have no
  \<open>try\<close>, the whole action). The arguments of a protocol command are its required
  options in the order the command declares them, then \<open>--dry-run\<close>.
\<close>

fun command_action :: "'e collaborators \<Rightarrow> command \<Rightarrow> ('e, unit) block" where
  "command_action env WalletAddress = wallet_address_action env"
| "command_action env (WalletBalance opt_wallet) = wallet_balance_action env opt_wallet"
| "command_action env Protocols = protocols_action env"
| "command_action env TrustedHosts = trusted_hosts_action env"
| "command_action env (InspectUrl url) = inspect_action env url"
| "command_action env (ExecuteUrl url opts) = execute_action env url opts"
| "command_action env (KaminoDeposit vault amount dryRun) =
     protocol_action env
       \<lparr>req_url = ''https://kamino.dial.to/api/v0/lend/'' @ vault @ ''/deposit'',
        req_params = Some [(''amount'', PString amount)],
        req_info = [''Depositing '' @ amount @ '' to '' @ vault @ ''...''],
        req_done = ''Deposit confirmed!'', req_explorer = True\<rparr> dryRun"
| "command_action env (KaminoWithdraw vault amount dryRun) =
     protocol_action env
       \<lparr>req_url = ''https://kamino.dial.to/api/v0/lend/'' @ vault @ ''/withdraw'',
        req_params = Some [(''amount'', PString amount)],
        req_info = [''Withdrawing '' @ amount @ '' from '' @ vault @ ''...''],
        req_done = ''Withdrawal confirmed!'', req_explorer = True\<rparr> dryRun"
| "command_action env (KaminoBorrow market reserve amount dryRun) =
     protocol_action env
       \<lparr>req_url = ''https://kamino.dial.to/api/v0/lending/reserve/'' @ market @ ''/''
                    @ reserve @ ''/borrow'',
        req_params = Some [(''amount'', PString amount)],
        req_info = [''Borrowing '' @ amount @ ''...''],
        req_done = ''Borrow confirmed!'', req_explorer = True\<rparr> dryRun"
| "command_action env (KaminoRepay market reserve amount dryRun) =
     protocol_action env
       \<lparr>req_url = ''https://kamino.dial.to/api/v0/lending/reserve/'' @ market @ ''/''
                    @ reserve @ ''/repay'',
        req_params = Some [(''amount'', PString amount)],
        req_info = [''Repaying '' @ amount @ ''...''],
        req_done = ''Repayment confirmed!'', req_explorer = True\<rparr> dryRun"
| "command_action env (KaminoMultiply market collToken debtToken amount leverage dryRun) =
     protocol_action env
       \<lparr>req_url = ''https://kamino.dial.to/api/v0/multiply/'' @ market
                    @ ''/deposit?collTokenMint='' @ collToken @ ''&debtTokenMint='' @ debtToken,
        req_params = Some ((''amount'', PString amount) #
                       (case leverage of
                          Some l \<Rightarrow> if l \<noteq> [] then [(''leverage'', PString l)] else []
                        | None \<Rightarrow> [])),
        req_info = [''Opening multiply position...''],
        req_done = ''Position opened!'', req_explorer = True\<rparr> dryRun"
| "command_action env (JupiterSwap input output amount dryRun) =
     (let blinkUrl = ''https://worker.jup.ag/blinks/swap/'' @ token_or_self env input @ ''/''
                       @ token_or_self env output @ ''/'' @ amount
      in protocol_action env
           \<lparr>req_url = blinkUrl, req_params = None,
            req_info = [''Swapping '' @ amount @ '' '' @ input @ '' for '' @ output @ ''...'',
                        ''URL: '' @ blinkUrl],
            req_done = ''Swap confirmed!'', req_explorer = True\<rparr> dryRun)"
| "command_action env (LuloDeposit token amount dryRun) =
     protocol_action env
       \<lparr>req_url = ''https://lulo.dial.to/api/v0/deposit'',
        req_params = Some [(''token'', PString token), (''amount'', PString amount)],
        req_info = [''Depositing '' @ amount @ '' to Lulo...''],
        req_done = ''Deposit confirmed!'', req_explorer = False\<rparr> dryRun"
| "command_action env (LuloWithdraw token amount dryRun) =
     protocol_action env
       \<lparr>req_url = ''https://lulo.dial.to/api/v0/withdraw'',
        req_params = Some [(''token'', PString token), (''amount'', PString amount)],
        req_info = [''Withdrawing '' @ amount @ '' from Lulo...''],
        req_done = ''Withdrawal confirmed!'', req_explorer = False\<rparr> dryRun"
| "command_action env (DriftVaultDeposit vault amount dryRun) =
     protocol_action env
       \<lparr>req_url = ''https://app.drift.trade/api/actions/vault/deposit?vault='' @ vault,
        req_params = Some [(''amount'', PString amount)],
        req_info = [''Depositing '' @ amount @ '' to Drift vault...''],
        req_done = ''Vault deposit confirmed!'', req_explorer = False\<rparr> dryRun"
| "command_action env (DriftVaultWithdraw vault amount dryRun) =
     protocol_action env
       \<lparr>req_url = ''https://app.drift.trade/api/actions/vault/withdraw?vault='' @ vault,
        req_params = Some [(''amount'', PString amount)],
        req_info = [''Withdrawing '' @ amount @ '' from Drift vault...''],
        req_done = ''Vault withdrawal confirmed!'', req_explorer = False\<rparr> dryRun"
| "command_action env (SanctumStake lst amount dryRun) =
     protocol_action env
       \<lparr>req_url = ''https://sanctum.dial.to/api/v0/stake'',
        req_params = Some [(''inputMint'', PString SOL_MINT), (''outputMint'', PString lst),
                           (''amount'', PString amount)],
        req_info = [''Staking '' @ amount @ '' SOL for '' @ lst @ ''...''],
        req_done = ''Staking confirmed!'', req_explorer = False\<rparr> dryRun"
| "command_action env (JitoStake amount dryRun) =
     protocol_action env
       \<lparr>req_url = ''https://jito.dial.to/stake'',
        req_params = Some [(''amount'', PString amount)],
        req_info = [''Staking '' @ amount @ '' SOL for JitoSOL...''],
        req_done = ''Staking confirmed!'', req_explorer = False\<rparr> dryRun"
| "command_action env (RaydiumSwap input output amount dryRun) =
     (let blinkUrl = ''https://share.raydium.io/dialect/actions/swap/tx?outputMint=''
                       @ token_or_self env output @ ''&amount='' @ amount
      in protocol_action env
           \<lparr>req_url = blinkUrl, req_params = None,
            req_info = [''Swapping '' @ amount @ '' SOL for '' @ output @ '' via Raydium...'',
                        ''URL: '' @ blinkUrl],
            req_done = ''Swap confirmed!'', req_explorer = False\<rparr> dryRun)"
| "command_action env Status = status_action env"

text \<open>
  A command run to the end of its process: \<open>execute\<close> has its own handler, \<open>protocols\<close>
  and \<open>trusted-hosts\<close> have none, every other command has the common one.
\<close>

fun run_command :: "'e collaborators \<Rightarrow> command \<Rightarrow> run" where
  "run_command env (ExecuteUrl url opts) = execute_command env url opts"
| "run_command env Protocols = \<lparr>events = snd (protocols_action env), exit_code = 0\<rparr>"
| "run_command env TrustedHosts = \<lparr>events = snd (trusted_hosts_action env), exit_code = 0\<rparr>"
| "run_command env cmd = catching env (command_action env cmd)"

text \<open>The collaborator calls in a list of events, and how many of them satisfy \<open>P\<close>.\<close>

fun calls :: "event list \<Rightarrow> call list" where
  "calls [] = []"
| "calls (Call c # t) = c # calls t"
| "calls (ev # t) = calls t"

fun is_GetTransaction :: "call \<Rightarrow> bool" where
  "is_GetTransaction (GetTransaction u a p) = True"
| "is_GetTransaction c = False"

fun is_Simulate :: "call \<Rightarrow> bool" where
  "is_Simulate (Simulate tx) = True"
| "is_Simulate c = False"

fun is_SignAndSend :: "call \<Rightarrow> bool" where
  "is_SignAndSend (SignAndSend tx w) = True"
| "is_SignAndSend c = False"

fun is_Error :: "event \<Rightarrow> bool" where
  "is_Error (Error m) = True"
| "is_Error ev = False"

definition count_calls :: "(call \<Rightarrow> bool) \<Rightarrow> event list \<Rightarrow> nat" where
  "count_calls P t = length (filter P (calls t))"


section \<open>Components the specification describes whose code is not among the sources\<close>

text \<open>
  \<open>lib/blinks.js\<close>, \<open>lib/actions.js\<close> and \<open>lib/registry.js\<close> are imported by the
  sources above but are not among them. What the theorems below say about the URL
  Resolver, the Trust Registry and the Action Protocol Client is said about the
  following definitions, which follow the wording of the specification.
\<close>

subsection \<open>Trust Registry (specification 4.2)\<close>

text \<open>
  Modelled from the spec: the status of a TrustRecord, for the absent \<open>lib/registry.js\<close>:
  "\<open>{ host, status: Trusted | Malicious | Unknown }\<close>".
\<close>

datatype trust_status = Trusted | Unknown | Malicious

text \<open>
  Modelled from the spec: the registry snapshot, which \<open>lib/registry.js\<close> would hold. It
  is what the fetch source returns, \<open>{ trusted: [host], malicious: [host] }\<close>.
\<close>

record registry =
  trusted_hosts :: "string list"
  malicious_hosts :: "string list"

text \<open>
  Modelled from the spec: the query \<open>isTrusted(host) -> Trusted|Unknown|Malicious\<close> of the
  absent \<open>lib/registry.js\<close>: "Hosts not present in either trusted or malicious sets resolve
  to Unknown". The specification does not order the two sets for a host in both; the deny
  list is read first here.
\<close>

definition isTrusted :: "registry \<Rightarrow> string \<Rightarrow> trust_status" where
  "isTrusted reg host =
     (if host \<in> set (malicious_hosts reg) then Malicious
      else if host \<in> set (trusted_hosts reg) then Trusted
      else Unknown)"

subsection \<open>URL Resolver (specification 4.1)\<close>

text \<open>
  Modelled from the spec: the host of an \<open>https://\<close> URL, for the absent URL parsing of
  \<open>lib/actions.js\<close>: the text after the scheme, up to the path, the query or the fragment.
\<close>

definition hostOf :: "string \<Rightarrow> string" where
  "hostOf u = takeWhile (\<lambda>c. c \<notin> set ''/?#'') (drop 8 u)"

text \<open>
  Modelled from the spec: "re-validate the result as a parseable HTTPS URL", for the absent
  \<open>lib/actions.js\<close>: the scheme is \<open>https://\<close> and a host follows it.
\<close>

definition isHttpsUrl :: "string \<Rightarrow> bool" where
  "isHttpsUrl u = (prefix ''https://'' u \<and> hostOf u \<noteq> [])"

text \<open>
  Modelled from the spec: the construction of a CanonicalUrl, for the absent
  \<open>lib/actions.js\<close>: "A CanonicalUrl is always \<open>https://\<close> scheme; construction fails
  otherwise", with \<open>InvalidUrlKind\<close>.
\<close>

definition validate :: "string \<Rightarrow> error_kind + string" where
  "validate u = (if isHttpsUrl u then Inr u else Inl InvalidUrlKind)"

text \<open>
  Modelled from the spec: "URL-decoding applied at most once", for the absent
  \<open>lib/actions.js\<close>: one pass from left to right that turns \<open>%\<close> and two hexadecimal
  digits into the byte they denote; a \<open>%\<close> that no two hexadecimal digits follow is kept
  as it is.
\<close>

definition hexval :: "char \<Rightarrow> nat option" where
  "hexval c =
     (let n = (of_char c :: nat)
      in if 48 \<le> n \<and> n \<le> 57 then Some (n - 48)
         else if 65 \<le> n \<and> n \<le> 70 then Some (n - 55)
         else if 97 \<le> n \<and> n \<le> 102 then Some (n - 87)
         else None)"

fun percent_decode :: "string \<Rightarrow> string" where
  "percent_decode (c # d # e # rest) =
     (if c = CHR ''%''
      then (case (hexval d, hexval e) of
              (Some h, Some l) \<Rightarrow> char_of (16 * h + l) # percent_decode rest
            | _ \<Rightarrow> c # percent_decode (d # e # rest))
      else c # percent_decode (d # e # rest))"
| "percent_decode [c, d] = [c, d]"
| "percent_decode [c] = [c]"
| "percent_decode [] = []"

text \<open>
  JavaScript's \<open>encodeURIComponent\<close> on a byte string: the way a caller writes the
  "encoded" form of the \<open>action\<close> parameter.
\<close>

definition unreserved :: "char \<Rightarrow> bool" where
  "unreserved c =
     (let n = (of_char c :: nat)
      in (65 \<le> n \<and> n \<le> 90) \<or> (97 \<le> n \<and> n \<le> 122) \<or> (48 \<le> n \<and> n \<le> 57)
         \<or> c \<in> set (''-_.!~*()'' @ [CHR 0x27]))"

definition hexdigit :: "nat \<Rightarrow> char" where
  "hexdigit n = ''0123456789ABCDEF'' ! n"

definition encode_char :: "char \<Rightarrow> string" where
  "encode_char c =
     (if unreserved c then [c]
      else [CHR ''%'', hexdigit ((of_char c :: nat) div 16), hexdigit ((of_char c :: nat) mod 16)])"

definition encodeURIComponent :: "string \<Rightarrow> string" where
  "encodeURIComponent s = concat (map encode_char s)"

text \<open>\<open>s.startsWith(p) ? s.slice(p.length) : undefined\<close>.\<close>

definition strip_prefix :: "string \<Rightarrow> string \<Rightarrow> string option" where
  "strip_prefix p s = (if prefix p s then Some (drop (length p) s) else None)"

text \<open>
  Modelled from the spec: the start of the interstitial form
  "\<open>https://dial.to/?action=<encoded-or-raw>\<close>", for the absent \<open>lib/actions.js\<close>.
\<close>

definition interstitial :: string where
  "interstitial = ''https://dial.to/?action=''"

text \<open>
  Modelled from the spec: "the action query parameter is extracted and decoded
  (URL-decoding applied at most once)", for the absent \<open>lib/actions.js\<close>. The parameter
  ends at the next \<open>&\<close> or \<open>#\<close>.
\<close>

definition action_parameter :: "string \<Rightarrow> string" where
  "action_parameter q = percent_decode (takeWhile (\<lambda>c. c \<notin> set ''&#'') q)"

text \<open>
  Modelled from the spec: the rules for an explicit protocol marker and for a bare URL,
  for the absent \<open>parseActionUrl\<close> of \<open>lib/actions.js\<close>: "\<open>solana-action:https://...\<close>
  - prefix stripped", "a bare \<open>blink:<url>\<close> marker - prefix stripped", "plain
  \<open>https://...\<close> - returned unchanged (after validation)"; exactly one transformation,
  then the result is re-validated.
\<close>

definition resolve_marker_or_bare :: "string \<Rightarrow> error_kind + string" where
  "resolve_marker_or_bare raw =
     (case strip_prefix ''solana-action:'' raw of
        Some u \<Rightarrow> validate u
      | None \<Rightarrow>
          (case strip_prefix ''blink:'' raw of
             Some u \<Rightarrow> validate u
           | None \<Rightarrow> validate raw))"

text \<open>
  Modelled from the spec: the URL Resolver, for the absent \<open>parseActionUrl\<close> of
  \<open>lib/actions.js\<close>. The rules are tried in the order "explicit protocol marker >
  interstitial > bare URL". The \<open>action\<close> parameter of an interstitial is resolved in
  turn, "bounded to one extra hop; a second interstitial redirect is an error". The
  failure is \<open>InvalidUrlKind\<close> "when no rule matches or the result does not parse as
  HTTPS".
\<close>

definition resolve :: "string \<Rightarrow> error_kind + string" where
  "resolve raw =
     (case strip_prefix ''solana-action:'' raw of
        Some u \<Rightarrow> validate u
      | None \<Rightarrow>
          (case strip_prefix ''blink:'' raw of
             Some u \<Rightarrow> validate u
           | None \<Rightarrow>
               (case strip_prefix interstitial raw of
                  Some q \<Rightarrow>
                    (let inner = action_parameter q
                     in if prefix interstitial inner then Inl InvalidUrlKind
                        else resolve_marker_or_bare inner)
                | None \<Rightarrow> validate raw)))"

subsection \<open>Action Protocol Client (specification 4.3)\<close>

text \<open>
  Modelled from the spec: what a GET comes back with, for the absent \<open>lib/actions.js\<close>: a
  status code and a body, or nothing within the bounded timeout.
\<close>

datatype http_reply = Reply nat string | TimedOut

text \<open>
  Modelled from the spec: \<open>getMetadata\<close> of the absent \<open>lib/actions.js\<close>: "issues a GET
  with a bounded timeout; on non-2xx response, fails with ActionFetchError{statusCode,
  body}; on timeout, fails with ActionTimeoutError; on a response body that does not match
  the expected shape, fails with ActionSchemaError". \<open>http_get\<close> is the network and
  \<open>decode\<close> the check of the body's shape.
\<close>

definition getMetadata ::
  "(string \<Rightarrow> http_reply) \<Rightarrow> (string \<Rightarrow> 'm option) \<Rightarrow> string \<Rightarrow> error_kind + 'm" where
  "getMetadata http_get decode canonicalUrl =
     (case http_get canonicalUrl of
        TimedOut \<Rightarrow> Inl ActionTimeoutError
      | Reply status body \<Rightarrow>
          if 200 \<le> status \<and> status < 300
          then (case decode body of None \<Rightarrow> Inl ActionSchemaError | Some md \<Rightarrow> Inr md)
          else Inl (ActionFetchError status body))"


section \<open>Concrete inputs for the examples\<close>

definition no_ext :: "rat \<Rightarrow> string" where
  "no_ext r = []"

definition deny_registry :: registry where
  "deny_registry = \<lparr>trusted_hosts = [''jito.dial.to''], malicious_hosts = [''evil.example'']\<rparr>"

definition sample_wallet :: Wallet where
  "sample_wallet = \<lparr>address = ''7xKXtg2CW87d97TXJSDpbD5jBkheTqA83TZRuJosgAsU''\<rparr>"

definition sample_connection :: Connection where
  "sample_connection = \<lparr>rpcEndpoint = ''https://api.mainnet-beta.solana.com''\<rparr>"

text \<open>
  An environment in which every collaborator but \<open>JSON.parse\<close> and \<open>blinks.inspect\<close>
  answers; \<open>isTrustedHost\<close> is true exactly for the hosts the registry classifies as
  \<open>Trusted\<close>, and \<open>inspect\<close> meets a 404.
\<close>

definition sample_env :: "registry \<Rightarrow> error_kind collaborators" where
  "sample_env reg =
     \<lparr>wallet_fromEnv = Inr sample_wallet,
      wallet_getAllBalances = (\<lambda>w c. Inr [(''SOL'', Fin 2)]),
      getWalletTokenBalances = (\<lambda>c a. Inr [(''SOL'', Fin 2)]),
      getConnection = Inr sample_connection,
      checkConnection = (\<lambda>c. Inr \<lparr>healthy = True, slot = Some (Fin 1), version = None\<rparr>),
      json_parse = (\<lambda>json. Inl (JsError ''SyntaxError'')),
      blinks_isTrustedHost = (\<lambda>url. Inr (isTrusted reg (hostOf url) = Trusted)),
      blinks_getTransaction =
        (\<lambda>url account ps. Inr \<lparr>transaction = ''AQAB'', tx_message = None\<rparr>),
      blinks_simulate =
        (\<lambda>tx. Inr \<lparr>sim_success = True, sim_unitsConsumed = Some (Fin 5000),
                    sim_error = None\<rparr>),
      blinks_signAndSend = (\<lambda>tx w. Inr ''5VERv8NMvzbJMEkV''),
      blinks_inspect = (\<lambda>url. Inl (ActionFetchError 404 ''Not Found'')),
      TOKENS = (\<lambda>symbol. None),
      err_message = (\<lambda>e. ''Failed to fetch action''),
      err_details = (\<lambda>e. None),
      details_message = (\<lambda>d. None)\<rparr>"

definition dry_run :: execute_opts where
  "dry_run = \<lparr>opt_amount = Some ''1'', opt_dryRun = True, opt_params = None\<rparr>"

definition submit :: execute_opts where
  "submit = \<lparr>opt_amount = Some ''1'', opt_dryRun = False, opt_params = None\<rparr>"

definition losing_market :: DialectMarket where
  "losing_market =
     \<lparr>market_id = ''m1'', provider_id = ''kamino'', token_symbol = ''USDC'',
      depositApy = - 1 / 2, totalDepositUsd = 1000,
      actions = (\<lambda>a. if a = deposit then Some ''blink:https://kamino.dial.to/api/v0/lend/usdc-main/deposit''
                     else if a = withdraw then Some ''https://kamino.dial.to/api/v0/lend/usdc-main/withdraw''
                     else None)\<rparr>"

definition paying_market :: DialectMarket where
  "paying_market =
     \<lparr>market_id = ''m2'', provider_id = ''lulo'', token_symbol = ''USDC'',
      depositApy = 7 / 2, totalDepositUsd = 250000, actions = (\<lambda>a. None)\<rparr>"

definition fixed_api :: "DialectMarket list \<Rightarrow> error_kind markets_api" where
  "fixed_api ms = (\<lambda>endpoint ps. Inr ms)"

definition both_filters :: yield_options where
  "both_filters =
     \<lparr>minApy = Some (Fin (- 1)), minTvl = Some (Fin 500),
      providers = Some [''kamino'', ''lulo'']\<rparr>"

definition zero_minApy :: yield_options where
  "zero_minApy = \<lparr>minApy = Some (Fin 0), minTvl = None, providers = None\<rparr>"

definition not_found :: "string \<Rightarrow> http_reply" where
  "not_found url = Reply 404 ''Not Found''"

definition any_body :: "string \<Rightarrow> string option" where
  "any_body body = Some body"


section \<open>URL builders: a zero amount\<close>

text \<open>
  C10. For every vault slug (and every token pair), a Catalog URL builder called with
  amount 0 returns exactly the URL it returns with the amount left out: the amount is
  dropped, for \<open>buildKaminoDepositUrl\<close>, \<open>buildKaminoWithdrawUrl\<close>, \<open>buildJitoStakeUrl\<close>
  and \<open>buildJupiterSwapUrl\<close>.
\<close>

theorem zero_amount_is_dropped:
  "buildKaminoDepositUrl ext vaultSlug (Some (Fin 0)) = buildKaminoDepositUrl ext vaultSlug None
   \<and> buildKaminoWithdrawUrl ext vaultSlug (Some (Fin 0)) = buildKaminoWithdrawUrl ext vaultSlug None
   \<and> buildJitoStakeUrl ext (Some (Fin 0)) = buildJitoStakeUrl ext None
   \<and> buildJupiterSwapUrl ext inputToken outputToken (Some (Fin 0))
       = buildJupiterSwapUrl ext inputToken outputToken None"
  by (simp add: buildKaminoDepositUrl_def buildKaminoWithdrawUrl_def buildJitoStakeUrl_def
      buildJupiterSwapUrl_def Let_def split: option.splits)


section \<open>The Markets client\<close>

text \<open>
  C5. For every market and action name, \<open>getBlinkUrl\<close> returns null when the market has no
  entry for the action; otherwise, when the stored blinkUrl starts with \<open>blink:\<close> the
  result is that URL without its first six characters, and when it does not the URL is
  returned unchanged.
\<close>

theorem getBlinkUrl_cases:
  "(actions market action = None \<longrightarrow> getBlinkUrl market action = None)
   \<and> (\<forall>rest. actions market action = Some (''blink:'' @ rest)
         \<longrightarrow> getBlinkUrl market action = Some rest)
   \<and> (\<forall>u. actions market action = Some u \<and> prefix ''blink:'' u
         \<longrightarrow> getBlinkUrl market action = Some (drop 6 u))
   \<and> (\<forall>u. actions market action = Some u \<and> \<not> prefix ''blink:'' u
         \<longrightarrow> getBlinkUrl market action = Some u)"
  by (auto simp: getBlinkUrl_def)

theorem getBlinkUrl_cases_witness:
  "actions losing_market borrow = None \<and> getBlinkUrl losing_market borrow = None
   \<and> actions losing_market deposit
       = Some (''blink:'' @ ''https://kamino.dial.to/api/v0/lend/usdc-main/deposit'')
   \<and> getBlinkUrl losing_market deposit
       = Some ''https://kamino.dial.to/api/v0/lend/usdc-main/deposit''
   \<and> \<not> prefix ''blink:'' ''https://kamino.dial.to/api/v0/lend/usdc-main/withdraw''
   \<and> getBlinkUrl losing_market withdraw
       = Some ''https://kamino.dial.to/api/v0/lend/usdc-main/withdraw''"
proof -
  have n: "actions losing_market borrow = None"
    by (simp add: losing_market_def)
  have d: "actions losing_market deposit
       = Some (''blink:'' @ ''https://kamino.dial.to/api/v0/lend/usdc-main/deposit'')"
    by (simp add: losing_market_def)
  have w: "actions losing_market withdraw
       = Some ''https://kamino.dial.to/api/v0/lend/usdc-main/withdraw''
     \<and> \<not> prefix ''blink:'' ''https://kamino.dial.to/api/v0/lend/usdc-main/withdraw''"
    by (simp add: losing_market_def)
  show ?thesis
    using getBlinkUrl_cases [of losing_market borrow] getBlinkUrl_cases [of losing_market deposit]
      getBlinkUrl_cases [of losing_market withdraw] n d w
    by simp
qed

lemma set_insert_by: "set (insert_by cmp x xs) = insert x (set xs)"
  by (induction xs) auto

lemma set_sort_by: "set (sort_by cmp xs) = set xs"
  by (induction xs) (auto simp: sort_by_def set_insert_by)

lemma sorted_insert_by:
  "sorted_wrt (\<lambda>a b. depositApy b \<le> depositApy a) xs \<Longrightarrow>
   sorted_wrt (\<lambda>a b. depositApy b \<le> depositApy a) (insert_by byApyDesc x xs)"
  by (induction xs) (auto simp: set_insert_by byApyDesc_def)

lemma sorted_sort_by: "sorted_wrt (\<lambda>a b. depositApy b \<le> depositApy a) (sort_by byApyDesc xs)"
proof (induction xs)
  case Nil
  show ?case by (simp add: sort_by_def)
next
  case (Cons x xs)
  then show ?case
    using sorted_insert_by [of "sort_by byApyDesc xs" x] by (simp add: sort_by_def)
qed

lemma keeps_minApy:
  "keeps (Some opts) m \<Longrightarrow> minApy opts = Some (Fin a) \<Longrightarrow> a \<noteq> 0 \<Longrightarrow> a \<le> depositApy m"
  by (auto simp: keeps_def split: if_splits)

lemma keeps_minTvl:
  "keeps (Some opts) m \<Longrightarrow> minTvl opts = Some (Fin t) \<Longrightarrow> t \<noteq> 0 \<Longrightarrow> t \<le> totalDepositUsd m"
  by (auto simp: keeps_def split: if_splits)

lemma keeps_minApy_number:
  "keeps (Some opts) m \<Longrightarrow> minApy opts = Some a \<Longrightarrow> truthy_number a
     \<Longrightarrow> \<not> less_number (depositApy m) a"
  by (auto simp: keeps_def split: if_splits)

lemma keeps_minTvl_number:
  "keeps (Some opts) m \<Longrightarrow> minTvl opts = Some t \<Longrightarrow> truthy_number t
     \<Longrightarrow> \<not> less_number (totalDepositUsd m) t"
  by (auto simp: keeps_def split: if_splits)

lemma keeps_providers:
  "keeps (Some opts) m \<Longrightarrow> providers opts = Some ps \<Longrightarrow> provider_id m \<in> set ps"
  by (auto simp: keeps_def split: if_splits)

lemma fixed_api_listMarkets: "listMarkets ext (fixed_api ms) options = Inr ms"
  by (simp add: listMarkets_def fixed_api_def Let_def)

text \<open>
  C9, as amended. For every token symbol and filter options, every market that
  \<open>findBestYield\<close> returns satisfies every filter that is supplied with a truthy value:
  \<open>depositApy\<close> is not below a \<open>minApy\<close> other than 0 and NaN (\<open>depositApy \<ge> minApy\<close>
  for a finite one), \<open>totalDepositUsd\<close> is not below a \<open>minTvl\<close> other than 0 and NaN,
  and \<open>provider.id\<close> is among \<open>providers\<close> when \<open>providers\<close> is given; and the list is
  in non-increasing order of \<open>depositApy\<close>. (A \<open>minApy\<close> or \<open>minTvl\<close> of 0 is read as
  not given.)
\<close>

theorem findBestYield_filters_and_sorts:
  assumes "findBestYield ext api tokenSymbol options = Inr ms"
  shows "sorted_wrt (\<lambda>a b. depositApy b \<le> depositApy a) ms
    \<and> (\<forall>m \<in> set ms. \<forall>opts a.
          options = Some opts \<and> minApy opts = Some a \<and> truthy_number a
            \<longrightarrow> \<not> less_number (depositApy m) a)
    \<and> (\<forall>m \<in> set ms. \<forall>opts a.
          options = Some opts \<and> minApy opts = Some (Fin a) \<and> a \<noteq> 0 \<longrightarrow> a \<le> depositApy m)
    \<and> (\<forall>m \<in> set ms. \<forall>opts t.
          options = Some opts \<and> minTvl opts = Some t \<and> truthy_number t
            \<longrightarrow> \<not> less_number (totalDepositUsd m) t)
    \<and> (\<forall>m \<in> set ms. \<forall>opts t.
          options = Some opts \<and> minTvl opts = Some (Fin t) \<and> t \<noteq> 0 \<longrightarrow> t \<le> totalDepositUsd m)
    \<and> (\<forall>m \<in> set ms. \<forall>opts ps.
          options = Some opts \<and> providers opts = Some ps \<longrightarrow> provider_id m \<in> set ps)"
proof -
  from assms obtain markets where ms: "ms = sort_by byApyDesc (filter (keeps options) markets)"
    by (auto simp: findBestYield_def split: sum.splits)
  have k: "\<forall>m \<in> set ms. keeps options m"
    by (simp add: ms set_sort_by)
  have s: "sorted_wrt (\<lambda>a b. depositApy b \<le> depositApy a) ms"
    unfolding ms by (rule sorted_sort_by)
  show ?thesis
  proof (intro conjI ballI allI impI)
    show "sorted_wrt (\<lambda>a b. depositApy b \<le> depositApy a) ms" by (rule s)
  next
    fix m opts a
    assume "m \<in> set ms" and "options = Some opts \<and> minApy opts = Some a \<and> truthy_number a"
    then show "\<not> less_number (depositApy m) a"
      using k keeps_minApy_number [of opts m a] by auto
  next
    fix m opts a
    assume "m \<in> set ms" and "options = Some opts \<and> minApy opts = Some (Fin a) \<and> a \<noteq> 0"
    then show "a \<le> depositApy m"
      using k keeps_minApy [of opts m a] by auto
  next
    fix m opts t
    assume "m \<in> set ms" and "options = Some opts \<and> minTvl opts = Some t \<and> truthy_number t"
    then show "\<not> less_number (totalDepositUsd m) t"
      using k keeps_minTvl_number [of opts m t] by auto
  next
    fix m opts t
    assume "m \<in> set ms" and "options = Some opts \<and> minTvl opts = Some (Fin t) \<and> t \<noteq> 0"
    then show "t \<le> totalDepositUsd m"
      using k keeps_minTvl [of opts m t] by auto
  next
    fix m opts ps
    assume "m \<in> set ms" and "options = Some opts \<and> providers opts = Some ps"
    then show "provider_id m \<in> set ps"
      using k keeps_providers [of opts m ps] by auto
  qed
qed

lemma sample_yield:
  "findBestYield no_ext (fixed_api [losing_market, paying_market]) ''USDC'' (Some both_filters)
     = Inr [paying_market, losing_market]"
  by (simp add: findBestYield_def fixed_api_listMarkets keeps_def sort_by_def byApyDesc_def
      both_filters_def losing_market_def paying_market_def)

theorem findBestYield_filters_and_sorts_witness:
  "findBestYield no_ext (fixed_api [losing_market, paying_market]) ''USDC'' (Some both_filters)
     = Inr [paying_market, losing_market]
   \<and> depositApy losing_market \<le> depositApy paying_market
   \<and> - 1 \<le> depositApy losing_market \<and> 500 \<le> totalDepositUsd losing_market
   \<and> provider_id losing_market \<in> set [''kamino'', ''lulo'']"
proof -
  have f: "minApy both_filters = Some (Fin (- 1)) \<and> (- 1 :: rat) \<noteq> 0
      \<and> minTvl both_filters = Some (Fin 500) \<and> (500 :: rat) \<noteq> 0
      \<and> providers both_filters = Some [''kamino'', ''lulo'']"
    by (simp add: both_filters_def)
  show ?thesis
    using findBestYield_filters_and_sorts [OF sample_yield] sample_yield f
    by auto
qed

text \<open>
  C9 as stated fails: with \<open>minApy = 0\<close> given, a market whose \<open>depositApy\<close> is
  \<open>-1/2\<close> is returned.
\<close>

theorem findBestYield_zero_minApy_counterexample:
  "findBestYield no_ext (fixed_api [losing_market]) ''USDC'' (Some zero_minApy) = Inr [losing_market]
   \<and> minApy zero_minApy = Some (Fin 0)
   \<and> \<not> (0 \<le> depositApy losing_market)"
  by (simp add: findBestYield_def fixed_api_listMarkets keeps_def sort_by_def
      zero_minApy_def losing_market_def)


section \<open>URL builders: parameters left out\<close>

text \<open>
  C3, as amended. Every Protocol Catalog URL construction is pure string templating with
  no network access and no validation: no builder ever fails with
  \<open>MissingTemplateParameter\<close>, and with its string parameters supplied it succeeds with
  the templated URL. (A vault slug, mint or collection left out is printed as the text
  \<open>undefined\<close>; a token left out makes \<open>buildJupiterSwapUrl\<close> and \<open>buildRaydiumSwapUrl\<close>
  throw a TypeError.)
\<close>

theorem builders_never_validate:
  "call_buildKaminoDepositUrl ext vaultSlug amount \<noteq> Inl MissingTemplateParameter
   \<and> call_buildKaminoWithdrawUrl ext vaultSlug amount \<noteq> Inl MissingTemplateParameter
   \<and> call_buildJitoStakeUrl ext amount \<noteq> Inl MissingTemplateParameter
   \<and> call_buildJupiterSwapUrl ext inputToken outputToken amount \<noteq> Inl MissingTemplateParameter
   \<and> call_buildRaydiumSwapUrl ext inputToken outputToken amount \<noteq> Inl MissingTemplateParameter
   \<and> call_buildMagicEdenBuyUrl nftMint \<noteq> Inl MissingTemplateParameter
   \<and> call_buildTensorBuyFloorUrl collection \<noteq> Inl MissingTemplateParameter
   \<and> (\<forall>slug. vaultSlug = Some slug \<longrightarrow>
         call_buildKaminoDepositUrl ext vaultSlug amount
           = Inr (''https://kamino.dial.to/api/v0/lend/'' @ slug @ ''/deposit''
                  @ (if truthy amount then ''?amount='' @ slot_number ext amount else []))
         \<and> call_buildKaminoWithdrawUrl ext vaultSlug amount
           = Inr (''https://kamino.dial.to/api/v0/lend/'' @ slug @ ''/withdraw''
                  @ (if truthy amount then ''?amount='' @ slot_number ext amount else [])))
   \<and> (\<forall>i out. inputToken = Some i \<and> outputToken = Some out \<longrightarrow>
         call_buildJupiterSwapUrl ext inputToken outputToken amount
           = Inr (buildJupiterSwapUrl ext i out amount)
         \<and> prefix ''https://worker.jup.ag/blinks/swap/'' (buildJupiterSwapUrl ext i out amount)
         \<and> call_buildRaydiumSwapUrl ext inputToken outputToken amount
           = Inr (''https://share.raydium.io/dialect/actions/swap/tx?inputMint=''
                  @ resolveTokenMint i @ ''&outputMint='' @ resolveTokenMint out
                  @ ''&amount='' @ slot_number ext amount))
   \<and> (\<forall>mint. nftMint = Some mint \<longrightarrow>
         call_buildMagicEdenBuyUrl nftMint
           = Inr (''https://api-mainnet.magiceden.dev/actions/buyNow/'' @ mint))
   \<and> (\<forall>c. collection = Some c \<longrightarrow>
         call_buildTensorBuyFloorUrl collection = Inr (''https://tensor.dial.to/buy-floor/'' @ c))"
  by (auto simp: call_buildKaminoDepositUrl_def call_buildKaminoWithdrawUrl_def
      call_buildJitoStakeUrl_def call_buildJupiterSwapUrl_def call_buildRaydiumSwapUrl_def
      call_buildMagicEdenBuyUrl_def call_buildTensorBuyFloorUrl_def TypeError_def
      buildKaminoDepositUrl_def buildKaminoWithdrawUrl_def buildRaydiumSwapUrl_def
      buildMagicEdenBuyUrl_def buildTensorBuyFloorUrl_def buildJupiterSwapUrl_def Let_def
      split: option.splits)

theorem builders_never_validate_witness:
  "call_buildKaminoDepositUrl no_ext (Some ''usdc-prime'') None
     = Inr ''https://kamino.dial.to/api/v0/lend/usdc-prime/deposit''
   \<and> call_buildKaminoWithdrawUrl no_ext (Some ''usdc-prime'') None
     = Inr ''https://kamino.dial.to/api/v0/lend/usdc-prime/withdraw''
   \<and> prefix ''https://worker.jup.ag/blinks/swap/'' (buildJupiterSwapUrl no_ext ''SOL'' ''USDC'' None)
   \<and> call_buildMagicEdenBuyUrl (Some ''GtQJmmYe'')
     = Inr ''https://api-mainnet.magiceden.dev/actions/buyNow/GtQJmmYe''
   \<and> call_buildTensorBuyFloorUrl (Some ''madlads'')
     = Inr ''https://tensor.dial.to/buy-floor/madlads''"
  using builders_never_validate [of no_ext "Some ''usdc-prime''" None "Some ''SOL''"
      "Some ''USDC''" "Some ''GtQJmmYe''" "Some ''madlads''"]
  by simp

text \<open>
  C3 as stated fails: with the vault slug left out the construction succeeds, and with a
  token left out the failure is a TypeError.
\<close>

theorem missing_slug_counterexample:
  "call_buildKaminoDepositUrl no_ext None None
     = Inr ''https://kamino.dial.to/api/v0/lend/undefined/deposit''
   \<and> call_buildJupiterSwapUrl no_ext None (Some ''USDC'') None = Inl TypeError
   \<and> TypeError \<noteq> MissingTemplateParameter"
  by (simp add: call_buildKaminoDepositUrl_def buildKaminoDepositUrl_def
      call_buildJupiterSwapUrl_def TypeError_def)


section \<open>The Trust Registry\<close>

text \<open>
  C4. For every host, the trust query returns one of exactly three statuses, Trusted,
  Unknown or Malicious; a host present in neither the trusted set nor the malicious set
  resolves to Unknown, a value distinct from both others.
\<close>

theorem isTrusted_three_valued:
  "isTrusted reg host \<in> {Trusted, Unknown, Malicious}
   \<and> Trusted \<noteq> Unknown \<and> Unknown \<noteq> Malicious \<and> Trusted \<noteq> Malicious
   \<and> (host \<notin> set (trusted_hosts reg) \<and> host \<notin> set (malicious_hosts reg)
        \<longrightarrow> isTrusted reg host = Unknown)
   \<and> (isTrusted reg host = Unknown
        \<longrightarrow> host \<notin> set (trusted_hosts reg) \<and> host \<notin> set (malicious_hosts reg))
   \<and> (isTrusted reg host \<noteq> Trusted \<longrightarrow> isTrusted reg host = Unknown \<or> isTrusted reg host = Malicious)"
  by (cases "isTrusted reg host") (auto simp: isTrusted_def split: if_splits)

theorem isTrusted_three_valued_witness:
  "''unheard.example'' \<notin> set (trusted_hosts deny_registry)
   \<and> ''unheard.example'' \<notin> set (malicious_hosts deny_registry)
   \<and> isTrusted deny_registry ''unheard.example'' = Unknown
   \<and> isTrusted deny_registry ''evil.example'' = Malicious
   \<and> isTrusted deny_registry ''jito.dial.to'' = Trusted"
proof -
  have h: "''unheard.example'' \<notin> set (trusted_hosts deny_registry)
     \<and> ''unheard.example'' \<notin> set (malicious_hosts deny_registry)"
    by (simp add: deny_registry_def)
  have m: "isTrusted deny_registry ''evil.example'' = Malicious"
    "isTrusted deny_registry ''jito.dial.to'' = Trusted"
    by (simp_all add: isTrusted_def deny_registry_def)
  show ?thesis
    using isTrusted_three_valued [of deny_registry "''unheard.example''"] h m by simp
qed


section \<open>The execute command\<close>

lemma calls_append: "calls (xs @ ys) = calls xs @ calls ys"
  by (induction xs rule: calls.induct) auto

lemma count_calls_append: "count_calls P (xs @ ys) = count_calls P xs + count_calls P ys"
  by (simp add: count_calls_def calls_append)

lemma fst_and_then:
  "fst (and_then m f) = (case fst m of Inl e \<Rightarrow> Inl e | Inr a \<Rightarrow> fst (f a))"
  by (auto simp: and_then_def split: prod.splits sum.splits)

lemma snd_and_then:
  "snd (and_then m f) = snd m @ (case fst m of Inl e \<Rightarrow> [] | Inr a \<Rightarrow> snd (f a))"
  by (auto simp: and_then_def split: prod.splits sum.splits)

lemma count_and_then:
  "count_calls P (snd (and_then m f)) =
     count_calls P (snd m) + (case fst m of Inl e \<Rightarrow> 0 | Inr a \<Rightarrow> count_calls P (snd (f a)))"
  by (simp add: snd_and_then count_calls_append split: sum.splits) (simp add: count_calls_def)

lemma count_calling: "count_calls P (snd (calling c r)) = (if P c then 1 else 0)"
  by (simp add: calling_def count_calls_def)

lemma fst_calling: "fst (calling c r) = r"
  by (simp add: calling_def)

lemma snd_calling: "snd (calling c r) = [Call c]"
  by (simp add: calling_def)

lemma count_emit: "count_calls P (snd (emit ev)) = (case ev of Call c \<Rightarrow> if P c then 1 else 0 | _ \<Rightarrow> 0)"
  by (cases ev) (simp_all add: emit_def count_calls_def)

lemma fst_emit: "fst (emit ev) = Inr ()"
  by (simp add: emit_def)

lemma count_skip: "count_calls P (snd skip) = 0"
  by (simp add: skip_def count_calls_def)

lemma count_value_of: "count_calls P (snd (value_of a)) = 0"
  by (simp add: value_of_def count_calls_def)

lemma count_nil: "count_calls P [] = 0"
  by (simp add: count_calls_def)

lemmas count_simps = count_nil count_and_then count_calling count_emit count_skip count_value_of
  fst_and_then fst_calling fst_emit

lemma build_params_count:
  "count_calls is_Simulate (snd (build_params env opts)) = 0"
  "count_calls is_SignAndSend (snd (build_params env opts)) = 0"
  "count_calls is_GetTransaction (snd (build_params env opts)) = 0"
  by (simp_all add: build_params_def count_simps Let_def split: option.splits sum.splits)



lemma sample_env_fields:
  "wallet_getAllBalances (sample_env reg) w c = Inr [(''SOL'', Fin 2)]"
  "getWalletTokenBalances (sample_env reg) c a = Inr [(''SOL'', Fin 2)]"
  "checkConnection (sample_env reg) c = Inr \<lparr>healthy = True, slot = Some (Fin 1), version = None\<rparr>"
  "TOKENS (sample_env reg) symbol = None"
  "wallet_fromEnv (sample_env reg) = Inr sample_wallet"
  "getConnection (sample_env reg) = Inr sample_connection"
  "json_parse (sample_env reg) json = Inl (JsError ''SyntaxError'')"
  "blinks_isTrustedHost (sample_env reg) url = Inr (isTrusted reg (hostOf url) = Trusted)"
  "blinks_getTransaction (sample_env reg) url account ps = Inr \<lparr>transaction = ''AQAB'', tx_message = None\<rparr>"
  "blinks_simulate (sample_env reg) tx = Inr \<lparr>sim_success = True, sim_unitsConsumed = Some (Fin 5000), sim_error = None\<rparr>"
  "blinks_signAndSend (sample_env reg) tx w = Inr ''5VERv8NMvzbJMEkV''"
  "blinks_inspect (sample_env reg) url = Inl (ActionFetchError 404 ''Not Found'')"
  "err_message (sample_env reg) e = ''Failed to fetch action''"
  "err_details (sample_env reg) e = None"
  "details_message (sample_env reg) d = None"
  by (simp_all add: sample_env_def)

lemma sample_opts: "opt_dryRun dry_run" "\<not> opt_dryRun submit"
  by (simp_all add: dry_run_def submit_def)

lemma sample_host: "isTrusted deny_registry (hostOf ''https://evil.example/drain'') = Malicious"
  by (simp add: isTrusted_def deny_registry_def hostOf_def)

lemma sample_params:
  "fst (build_params (sample_env reg) dry_run) = Inr [(''amount'', PString ''1'')]"
  "fst (build_params (sample_env reg) submit) = Inr [(''amount'', PString ''1'')]"
  by (simp_all add: build_params_def dry_run_def submit_def value_of_def)

text \<open>
  C1, as amended. For every ExecutionRequest, whatever the trust query answers for its
  host, \<open>execute\<close> does not stop at the trust check: when \<open>isTrustedHost(url)\<close> is false it
  logs a warning, and in either case it goes on to call \<open>getTransaction\<close> exactly once;
  whether the call fails, and with what, is decided by \<open>getTransaction\<close> and by the
  simulate or sign-and-send step alone.
\<close>

theorem execute_trust_is_advisory:
  assumes "wallet_fromEnv env = Inr wallet" and "getConnection env = Inr connection"
    and "fst (build_params env opts) = Inr ps"
    and "blinks_isTrustedHost env url = Inr trusted"
  shows "count_calls is_GetTransaction (snd (execute_action env url opts)) = 1
    \<and> (\<not> trusted \<longrightarrow>
          Info ''Warning: This URL is not from a verified trusted host''
            \<in> set (snd (execute_action env url opts)))
    \<and> fst (execute_action env url opts) =
        (case blinks_getTransaction env url (address wallet) (Some ps) of
           Inl e \<Rightarrow> Inl e
         | Inr blinkTx \<Rightarrow>
             if opt_dryRun opts
             then (case blinks_simulate env blinkTx of Inl e \<Rightarrow> Inl e | Inr r \<Rightarrow> Inr ())
             else (case blinks_signAndSend env blinkTx wallet of Inl e \<Rightarrow> Inl e | Inr s \<Rightarrow> Inr ()))"
proof (intro conjI)
  show "count_calls is_GetTransaction (snd (execute_action env url opts)) = 1"
    using assms
    by (simp add: execute_action_def count_simps build_params_count skip_def split: sum.splits)
  show "\<not> trusted \<longrightarrow> Info ''Warning: This URL is not from a verified trusted host''
            \<in> set (snd (execute_action env url opts))"
    using assms
    by (simp add: execute_action_def snd_and_then fst_and_then fst_calling snd_calling emit_def)
  show "fst (execute_action env url opts) =
        (case blinks_getTransaction env url (address wallet) (Some ps) of
           Inl e \<Rightarrow> Inl e
         | Inr blinkTx \<Rightarrow>
             if opt_dryRun opts
             then (case blinks_simulate env blinkTx of Inl e \<Rightarrow> Inl e | Inr r \<Rightarrow> Inr ())
             else (case blinks_signAndSend env blinkTx wallet of Inl e \<Rightarrow> Inl e | Inr s \<Rightarrow> Inr ()))"
    using assms
    by (simp add: execute_action_def fst_and_then fst_calling fst_emit skip_def split: sum.splits)
qed

theorem execute_trust_is_advisory_witness:
  "wallet_fromEnv (sample_env deny_registry) = Inr sample_wallet
   \<and> getConnection (sample_env deny_registry) = Inr sample_connection
   \<and> fst (build_params (sample_env deny_registry) submit) = Inr [(''amount'', PString ''1'')]
   \<and> blinks_isTrustedHost (sample_env deny_registry) ''https://evil.example/drain'' = Inr False
   \<and> count_calls is_GetTransaction
        (snd (execute_action (sample_env deny_registry) ''https://evil.example/drain'' submit)) = 1
   \<and> Info ''Warning: This URL is not from a verified trusted host''
        \<in> set (snd (execute_action (sample_env deny_registry) ''https://evil.example/drain'' submit))
   \<and> fst (execute_action (sample_env deny_registry) ''https://evil.example/drain'' submit) = Inr ()"
proof -
  have w: "wallet_fromEnv (sample_env deny_registry) = Inr sample_wallet"
    by (simp add: sample_env_fields)
  have c: "getConnection (sample_env deny_registry) = Inr sample_connection"
    by (simp add: sample_env_fields)
  have p: "fst (build_params (sample_env deny_registry) submit) = Inr [(''amount'', PString ''1'')]"
    by (rule sample_params)
  have t: "blinks_isTrustedHost (sample_env deny_registry) ''https://evil.example/drain'' = Inr False"
    by (simp add: sample_env_fields sample_host)
  show ?thesis
    using execute_trust_is_advisory [OF w c p t] w c p t
    by (simp add: sample_env_fields sample_opts)
qed

text \<open>
  C1 as stated fails: for a host that the registry classifies as Malicious, \<open>execute\<close>
  calls \<open>getTransaction\<close> and completes.
\<close>

theorem execute_malicious_counterexample:
  "isTrusted deny_registry (hostOf ''https://evil.example/drain'') = Malicious
   \<and> fst (execute_action (sample_env deny_registry) ''https://evil.example/drain'' dry_run) = Inr ()
   \<and> count_calls is_GetTransaction
        (snd (execute_action (sample_env deny_registry) ''https://evil.example/drain'' dry_run)) = 1"
  by (simp add: sample_host execute_action_def count_simps build_params_count sample_params
      sample_env_fields skip_def sample_opts)

text \<open>
  C2. For every ExecutionRequest, at most one of simulation and sign-and-submit runs in an
  \<open>execute\<close> call, and exactly one whenever the transaction has been fetched: with
  \<open>dryRun\<close> the submit collaborator is never invoked, and without it the simulation is
  skipped.
\<close>

theorem execute_simulates_or_submits:
  "(opt_dryRun opts \<longrightarrow> count_calls is_SignAndSend (snd (execute_action env url opts)) = 0)
   \<and> (\<not> opt_dryRun opts \<longrightarrow> count_calls is_Simulate (snd (execute_action env url opts)) = 0)
   \<and> count_calls is_Simulate (snd (execute_action env url opts))
       + count_calls is_SignAndSend (snd (execute_action env url opts)) \<le> 1
   \<and> (\<forall>wallet connection ps trusted blinkTx.
         wallet_fromEnv env = Inr wallet \<and> getConnection env = Inr connection
         \<and> fst (build_params env opts) = Inr ps
         \<and> blinks_isTrustedHost env url = Inr trusted
         \<and> blinks_getTransaction env url (address wallet) (Some ps) = Inr blinkTx
         \<longrightarrow> count_calls is_Simulate (snd (execute_action env url opts))
               + count_calls is_SignAndSend (snd (execute_action env url opts)) = 1)"
proof (intro conjI allI impI)
  assume "opt_dryRun opts"
  then show "count_calls is_SignAndSend (snd (execute_action env url opts)) = 0"
    by (simp add: execute_action_def count_simps build_params_count skip_def split: sum.splits)
next
  assume "\<not> opt_dryRun opts"
  then show "count_calls is_Simulate (snd (execute_action env url opts)) = 0"
    by (simp add: execute_action_def count_simps build_params_count skip_def split: sum.splits)
next
  show "count_calls is_Simulate (snd (execute_action env url opts))
       + count_calls is_SignAndSend (snd (execute_action env url opts)) \<le> 1"
    by (simp add: execute_action_def count_simps build_params_count skip_def split: sum.splits)
next
  fix wallet connection ps trusted blinkTx
  assume "wallet_fromEnv env = Inr wallet \<and> getConnection env = Inr connection
         \<and> fst (build_params env opts) = Inr ps
         \<and> blinks_isTrustedHost env url = Inr trusted
         \<and> blinks_getTransaction env url (address wallet) (Some ps) = Inr blinkTx"
  then show "count_calls is_Simulate (snd (execute_action env url opts))
               + count_calls is_SignAndSend (snd (execute_action env url opts)) = 1"
    by (simp add: execute_action_def count_simps build_params_count skip_def split: sum.splits)
qed

theorem execute_simulates_or_submits_witness:
  "opt_dryRun dry_run \<and> \<not> opt_dryRun submit
   \<and> count_calls is_SignAndSend
       (snd (execute_action (sample_env deny_registry) ''https://jito.dial.to/stake'' dry_run)) = 0
   \<and> count_calls is_Simulate
       (snd (execute_action (sample_env deny_registry) ''https://jito.dial.to/stake'' dry_run)) = 1
   \<and> count_calls is_Simulate
       (snd (execute_action (sample_env deny_registry) ''https://jito.dial.to/stake'' submit)) = 0
   \<and> count_calls is_SignAndSend
       (snd (execute_action (sample_env deny_registry) ''https://jito.dial.to/stake'' submit)) = 1"
proof -
  let ?env = "sample_env deny_registry"
  let ?url = "''https://jito.dial.to/stake''"
  have d: "opt_dryRun dry_run" and s: "\<not> opt_dryRun submit"
    by (simp_all add: dry_run_def submit_def)
  have pre: "wallet_fromEnv ?env = Inr sample_wallet
      \<and> getConnection ?env = Inr sample_connection
      \<and> fst (build_params ?env opts) = fst (build_params ?env opts)
      \<and> blinks_isTrustedHost ?env ?url = Inr True
      \<and> blinks_getTransaction ?env ?url a ps = Inr \<lparr>transaction = ''AQAB'', tx_message = None\<rparr>" for opts a ps
    by (simp add: sample_env_fields isTrusted_def deny_registry_def hostOf_def)
  show ?thesis
    using execute_simulates_or_submits [of dry_run ?env ?url]
      execute_simulates_or_submits [of submit ?env ?url] d s pre sample_params [of deny_registry]
    by auto
qed


section \<open>The URL Resolver\<close>

lemma hexval_hexdigit: "n < 16 \<Longrightarrow> hexval (hexdigit n) = Some n"
proof -
  assume "n < 16"
  then have "n \<in> {0,1,2,3,4,5,6,7,8,9,10,11,12,13,14,15}"
    by simp arith
  then show ?thesis
    by (auto simp: hexval_def hexdigit_def)
qed

lemma hexdigit_plain: "n < 16 \<Longrightarrow> hexdigit n \<notin> set ''&#''"
proof -
  assume "n < 16"
  then have "n \<in> {0,1,2,3,4,5,6,7,8,9,10,11,12,13,14,15}"
    by simp arith
  then show ?thesis
    by (auto simp: hexdigit_def)
qed

lemma percent_decode_plain: "c \<noteq> CHR ''%'' \<Longrightarrow> percent_decode (c # s) = c # percent_decode s"
  by (cases s rule: percent_decode.cases) auto

lemma of_char_div_16: "(of_char c :: nat) div 16 < 16"
proof -
  have "(of_char c :: nat) < 256" by simp
  then show ?thesis by arith
qed

lemma unreserved_not_percent: "unreserved c \<Longrightarrow> c \<noteq> CHR ''%''"
  by (auto simp: unreserved_def Let_def)

lemma unreserved_plain: "unreserved c \<Longrightarrow> c \<notin> set ''&#''"
  by (auto simp: unreserved_def Let_def)

lemma percent_decode_encode_char:
  "percent_decode (encode_char c @ s) = c # percent_decode s"
proof (cases "unreserved c")
  case True
  then show ?thesis
    by (simp add: encode_char_def percent_decode_plain unreserved_not_percent)
next
  case False
  then show ?thesis
    by (simp add: encode_char_def hexval_hexdigit of_char_div_16)
qed

lemma percent_decode_encodeURIComponent: "percent_decode (encodeURIComponent s) = s"
  by (induction s) (simp_all add: encodeURIComponent_def percent_decode_encode_char)

lemma encode_char_plain: "x \<in> set (encode_char c) \<Longrightarrow> x \<notin> set ''&#''"
  using unreserved_plain [of c] hexdigit_plain [of "(of_char c :: nat) div 16"]
    hexdigit_plain [of "(of_char c :: nat) mod 16"] of_char_div_16 [of c]
  by (auto simp: encode_char_def split: if_splits)

lemma takeWhile_encodeURIComponent:
  "takeWhile (\<lambda>c. c \<notin> set ''&#'') (encodeURIComponent s) = encodeURIComponent s"
  unfolding takeWhile_eq_all_conv encodeURIComponent_def
  using encode_char_plain by auto

lemma action_parameter_encoded: "action_parameter (encodeURIComponent s) = s"
  unfolding action_parameter_def takeWhile_encodeURIComponent percent_decode_encodeURIComponent
  by (rule refl)

lemma percent_decode_no_percent: "CHR ''%'' \<notin> set s \<Longrightarrow> percent_decode s = s"
  by (induction s rule: percent_decode.induct) auto

lemma action_parameter_raw:
  assumes "set s \<inter> set ''&#%'' = {}"
  shows "action_parameter s = s"
proof -
  from assms have t: "takeWhile (\<lambda>c. c \<notin> set ''&#'') s = s"
    unfolding takeWhile_eq_all_conv by auto
  from assms have "CHR ''%'' \<notin> set s" by auto
  then have p: "percent_decode s = s"
    by (rule percent_decode_no_percent)
  show ?thesis
    unfolding action_parameter_def t p by (rule refl)
qed

lemma strip_prefix_append: "strip_prefix p (p @ s) = Some s"
  by (simp add: strip_prefix_def)

lemma https_no_marker:
  "prefix ''https://'' u \<Longrightarrow> strip_prefix ''solana-action:'' u = None \<and> strip_prefix ''blink:'' u = None"
  by (auto simp: strip_prefix_def elim!: prefixE)

lemma resolve_marker_or_bare_https:
  assumes "isHttpsUrl u"
  shows "resolve_marker_or_bare u = Inr u"
proof -
  from assms have m: "strip_prefix ''solana-action:'' u = None" "strip_prefix ''blink:'' u = None"
    using https_no_marker [of u] by (simp_all add: isHttpsUrl_def)
  show ?thesis
    using assms by (simp add: resolve_marker_or_bare_def m validate_def)
qed

lemma resolve_plain:
  assumes "isHttpsUrl u" and "\<not> prefix interstitial u"
  shows "resolve u = Inr u"
proof -
  from assms(1) have m: "strip_prefix ''solana-action:'' u = None" "strip_prefix ''blink:'' u = None"
    using https_no_marker [of u] by (simp_all add: isHttpsUrl_def)
  from assms(2) have i: "strip_prefix interstitial u = None"
    by (simp add: strip_prefix_def)
  show ?thesis
    using assms(1) by (simp add: resolve_def m i validate_def)
qed

lemma resolve_solana_action: "resolve (''solana-action:'' @ u) = validate u"
  using strip_prefix_append [of "''solana-action:''" u] by (simp add: resolve_def)

lemma resolve_blink: "resolve (''blink:'' @ u) = validate u"
  using strip_prefix_append [of "''blink:''" u]
  by (simp add: resolve_def) (simp add: strip_prefix_def)

lemma interstitial_no_marker:
  "strip_prefix ''solana-action:'' (interstitial @ q) = None"
  "strip_prefix ''blink:'' (interstitial @ q) = None"
  by (simp_all add: strip_prefix_def interstitial_def)

lemma resolve_interstitial:
  "resolve (interstitial @ q) =
     (if prefix interstitial (action_parameter q) then Inl InvalidUrlKind
      else resolve_marker_or_bare (action_parameter q))"
  by (simp add: resolve_def interstitial_no_marker strip_prefix_append Let_def)

lemma resolve_marker_or_bare_solana: "resolve_marker_or_bare (''solana-action:'' @ u) = validate u"
  using strip_prefix_append [of "''solana-action:''" u] by (simp add: resolve_marker_or_bare_def)

lemma marker_not_interstitial: "\<not> prefix interstitial (''solana-action:'' @ u)"
  by (simp add: interstitial_def)

lemma validate_https: "validate u = Inr c \<Longrightarrow> c = u \<and> isHttpsUrl u"
  by (auto simp: validate_def split: if_splits)

lemma resolve_marker_or_bare_is_https: "resolve_marker_or_bare raw = Inr c \<Longrightarrow> isHttpsUrl c"
  by (auto simp: resolve_marker_or_bare_def dest: validate_https split: option.splits)

lemma resolve_is_https: "resolve raw = Inr c \<Longrightarrow> isHttpsUrl c"
  by (auto simp: resolve_def Let_def dest: validate_https resolve_marker_or_bare_is_https
      split: option.splits if_splits)

lemma not_https_no_interstitial: "\<not> prefix ''https://'' u \<Longrightarrow> strip_prefix interstitial u = None"
  by (auto simp: strip_prefix_def interstitial_def elim!: prefixE)

lemma resolve_not_https:
  "\<not> prefix ''https://'' u \<Longrightarrow> strip_prefix ''solana-action:'' u = None \<Longrightarrow> strip_prefix ''blink:'' u = None \<Longrightarrow> resolve u = Inl InvalidUrlKind"
  by (simp add: resolve_def not_https_no_interstitial validate_def isHttpsUrl_def)


lemma enc_sample:
  "encodeURIComponent ''https://jito.dial.to/stake'' = ''https%3A%2F%2Fjito.dial.to%2Fstake''"
  by code_simp

text \<open>
  C8. For every supported encoding of one logical endpoint \<open>u\<close> (a valid https URL that
  is not itself an interstitial) the Resolver produces the same CanonicalUrl \<open>u\<close>: for
  the plain URL, under the \<open>solana-action:\<close> prefix, under the \<open>blink:\<close> prefix, and as
  the \<open>action\<close> parameter of a \<open>dial.to\<close> interstitial, URL-encoded or (when \<open>u\<close> has no
  \<open>&\<close>, \<open>#\<close> or \<open>%\<close>) raw. In particular \<open>solana-action:https://jito.dial.to/stake\<close>
  resolves to \<open>https://jito.dial.to/stake\<close>.
\<close>

theorem resolve_normalises:
  assumes "isHttpsUrl u" and "\<not> prefix interstitial u"
  shows "resolve u = Inr u
    \<and> resolve (''solana-action:'' @ u) = Inr u
    \<and> resolve (''blink:'' @ u) = Inr u
    \<and> resolve (interstitial @ encodeURIComponent u) = Inr u
    \<and> resolve (interstitial @ encodeURIComponent (''solana-action:'' @ u)) = Inr u
    \<and> (set u \<inter> set ''&#%'' = {} \<longrightarrow>
          resolve (interstitial @ u) = Inr u
          \<and> resolve (interstitial @ ''solana-action:'' @ u) = Inr u)
    \<and> resolve ''solana-action:https://jito.dial.to/stake'' = Inr ''https://jito.dial.to/stake''"
proof -
  have v: "validate u = Inr u" using assms by (simp add: validate_def)
  have s: "set u \<inter> set ''&#%'' = {} \<Longrightarrow> set (''solana-action:'' @ u) \<inter> set ''&#%'' = {}"
    by auto
  have j: "resolve ''solana-action:https://jito.dial.to/stake'' = Inr ''https://jito.dial.to/stake''"
    using resolve_solana_action [of "''https://jito.dial.to/stake''"]
    by (simp add: validate_def isHttpsUrl_def hostOf_def)
  show ?thesis
    using assms v j
    by (auto simp: resolve_plain resolve_solana_action resolve_blink resolve_interstitial
        action_parameter_encoded action_parameter_raw [OF s] action_parameter_raw resolve_marker_or_bare_https
        resolve_marker_or_bare_solana marker_not_interstitial
        simp del: append.simps)
qed

theorem resolve_normalises_witness:
  "isHttpsUrl ''https://jito.dial.to/stake''
   \<and> \<not> prefix interstitial ''https://jito.dial.to/stake''
   \<and> set ''https://jito.dial.to/stake'' \<inter> set ''&#%'' = {}
   \<and> resolve ''https://jito.dial.to/stake'' = Inr ''https://jito.dial.to/stake''
   \<and> resolve ''solana-action:https://jito.dial.to/stake'' = Inr ''https://jito.dial.to/stake''
   \<and> resolve ''blink:https://jito.dial.to/stake'' = Inr ''https://jito.dial.to/stake''
   \<and> resolve ''https://dial.to/?action=https%3A%2F%2Fjito.dial.to%2Fstake''
        = Inr ''https://jito.dial.to/stake''
   \<and> resolve ''https://dial.to/?action=https://jito.dial.to/stake''
        = Inr ''https://jito.dial.to/stake''
   \<and> resolve ''https://dial.to/?action=solana-action:https://jito.dial.to/stake''
        = Inr ''https://jito.dial.to/stake''"
proof -
  have h: "isHttpsUrl ''https://jito.dial.to/stake''"
    by (simp add: isHttpsUrl_def hostOf_def)
  have n: "\<not> prefix interstitial ''https://jito.dial.to/stake''"
    by (simp add: interstitial_def)
  have p: "set ''https://jito.dial.to/stake'' \<inter> set ''&#%'' = {}"
    by simp
  have e: "interstitial @ encodeURIComponent ''https://jito.dial.to/stake''
      = ''https://dial.to/?action=https%3A%2F%2Fjito.dial.to%2Fstake''"
    by (simp add: enc_sample interstitial_def)
  have i: "interstitial @ ''https://jito.dial.to/stake''
      = ''https://dial.to/?action=https://jito.dial.to/stake''"
    "interstitial @ ''solana-action:'' @ ''https://jito.dial.to/stake''
      = ''https://dial.to/?action=solana-action:https://jito.dial.to/stake''"
    by (simp_all add: interstitial_def)
  show ?thesis
    using resolve_normalises [OF h n] h n p unfolding e i by simp
qed

lemma resolve_https_host:
  assumes "isHttpsUrl b" and "\<not> prefix interstitial b"
  shows "prefix ''https://'' b \<and> resolve b = Inr b"
  using assms resolve_plain [OF assms] by (simp add: isHttpsUrl_def)

lemma jupiter_shape:
  "\<exists>rest. buildJupiterSwapUrl ext i out amount = ''https://worker.jup.ag/blinks/swap/'' @ rest"
  by (simp add: buildJupiterSwapUrl_def Let_def split: option.splits)

lemma jito_shape: "\<exists>rest. buildJitoStakeUrl ext amount = ''https://jito.network/stake'' @ rest"
  by (simp add: buildJitoStakeUrl_def)

lemma builders_canonical:
  "prefix ''https://'' (buildJupiterSwapUrl ext i out amount)
     \<and> resolve (buildJupiterSwapUrl ext i out amount) = Inr (buildJupiterSwapUrl ext i out amount)"
  "prefix ''https://'' (buildRaydiumSwapUrl ext i out amount)
     \<and> resolve (buildRaydiumSwapUrl ext i out amount) = Inr (buildRaydiumSwapUrl ext i out amount)"
  "prefix ''https://'' (buildKaminoDepositUrl ext slug amount)
     \<and> resolve (buildKaminoDepositUrl ext slug amount) = Inr (buildKaminoDepositUrl ext slug amount)"
  "prefix ''https://'' (buildKaminoWithdrawUrl ext slug amount)
     \<and> resolve (buildKaminoWithdrawUrl ext slug amount) = Inr (buildKaminoWithdrawUrl ext slug amount)"
  "prefix ''https://'' (buildJitoStakeUrl ext amount)
     \<and> resolve (buildJitoStakeUrl ext amount) = Inr (buildJitoStakeUrl ext amount)"
  "prefix ''https://'' (buildMagicEdenBuyUrl mint)
     \<and> resolve (buildMagicEdenBuyUrl mint) = Inr (buildMagicEdenBuyUrl mint)"
  "prefix ''https://'' (buildTensorBuyFloorUrl collection)
     \<and> resolve (buildTensorBuyFloorUrl collection) = Inr (buildTensorBuyFloorUrl collection)"
proof -
  obtain r where r: "buildJupiterSwapUrl ext i out amount = ''https://worker.jup.ag/blinks/swap/'' @ r"
    using jupiter_shape by blast
  show "prefix ''https://'' (buildJupiterSwapUrl ext i out amount)
     \<and> resolve (buildJupiterSwapUrl ext i out amount) = Inr (buildJupiterSwapUrl ext i out amount)"
    unfolding r by (rule resolve_https_host) (simp_all add: isHttpsUrl_def hostOf_def interstitial_def)
  show "prefix ''https://'' (buildRaydiumSwapUrl ext i out amount)
     \<and> resolve (buildRaydiumSwapUrl ext i out amount) = Inr (buildRaydiumSwapUrl ext i out amount)"
    by (rule resolve_https_host)
      (simp_all add: buildRaydiumSwapUrl_def Let_def isHttpsUrl_def hostOf_def interstitial_def)
  show "prefix ''https://'' (buildKaminoDepositUrl ext slug amount)
     \<and> resolve (buildKaminoDepositUrl ext slug amount) = Inr (buildKaminoDepositUrl ext slug amount)"
    by (rule resolve_https_host)
      (simp_all add: buildKaminoDepositUrl_def Let_def isHttpsUrl_def hostOf_def interstitial_def)
  show "prefix ''https://'' (buildKaminoWithdrawUrl ext slug amount)
     \<and> resolve (buildKaminoWithdrawUrl ext slug amount) = Inr (buildKaminoWithdrawUrl ext slug amount)"
    by (rule resolve_https_host)
      (simp_all add: buildKaminoWithdrawUrl_def Let_def isHttpsUrl_def hostOf_def interstitial_def)
  obtain s where s: "buildJitoStakeUrl ext amount = ''https://jito.network/stake'' @ s"
    using jito_shape by blast
  show "prefix ''https://'' (buildJitoStakeUrl ext amount)
     \<and> resolve (buildJitoStakeUrl ext amount) = Inr (buildJitoStakeUrl ext amount)"
    unfolding s by (rule resolve_https_host) (simp_all add: isHttpsUrl_def hostOf_def interstitial_def)
  show "prefix ''https://'' (buildMagicEdenBuyUrl mint)
     \<and> resolve (buildMagicEdenBuyUrl mint) = Inr (buildMagicEdenBuyUrl mint)"
    by (rule resolve_https_host)
      (simp_all add: buildMagicEdenBuyUrl_def isHttpsUrl_def hostOf_def interstitial_def)
  show "prefix ''https://'' (buildTensorBuyFloorUrl collection)
     \<and> resolve (buildTensorBuyFloorUrl collection) = Inr (buildTensorBuyFloorUrl collection)"
    by (rule resolve_https_host)
      (simp_all add: buildTensorBuyFloorUrl_def isHttpsUrl_def hostOf_def interstitial_def)
qed

text \<open>
  C6. Every CanonicalUrl has the \<open>https://\<close> scheme: whatever the Resolver returns
  starts with \<open>https://\<close>, every URL a Catalog builder produces starts with \<open>https://\<close>
  and is a CanonicalUrl as it stands, and constructing a CanonicalUrl from an input that
  is not HTTPS (bare, or under a protocol marker) fails with \<open>InvalidUrlKind\<close>.
\<close>

theorem canonical_urls_are_https:
  "(\<forall>c. resolve raw = Inr c \<longrightarrow> prefix ''https://'' c \<and> isHttpsUrl c)
   \<and> (\<not> prefix ''https://'' u \<longrightarrow>
         validate u = Inl InvalidUrlKind
         \<and> resolve (''solana-action:'' @ u) = Inl InvalidUrlKind
         \<and> resolve (''blink:'' @ u) = Inl InvalidUrlKind
         \<and> (\<not> prefix ''solana-action:'' u \<and> \<not> prefix ''blink:'' u
              \<longrightarrow> resolve u = Inl InvalidUrlKind))
   \<and> (\<forall>b \<in> {buildJupiterSwapUrl ext i out amount, buildRaydiumSwapUrl ext i out amount,
              buildKaminoDepositUrl ext slug amount, buildKaminoWithdrawUrl ext slug amount,
              buildJitoStakeUrl ext amount, buildMagicEdenBuyUrl mint,
              buildTensorBuyFloorUrl collection}.
         prefix ''https://'' b \<and> resolve b = Inr b)"
proof (intro conjI allI impI ballI)
  fix c assume "resolve raw = Inr c"
  then have "isHttpsUrl c" by (rule resolve_is_https)
  then show "prefix ''https://'' c" and "isHttpsUrl c" by (simp_all add: isHttpsUrl_def)
next
  assume n: "\<not> prefix ''https://'' u"
  then show v: "validate u = Inl InvalidUrlKind"
    by (simp add: validate_def isHttpsUrl_def)
  show "resolve (''solana-action:'' @ u) = Inl InvalidUrlKind"
    unfolding resolve_solana_action by (rule v)
  show "resolve (''blink:'' @ u) = Inl InvalidUrlKind"
    unfolding resolve_blink by (rule v)
  assume "\<not> prefix ''solana-action:'' u \<and> \<not> prefix ''blink:'' u"
  then show "resolve u = Inl InvalidUrlKind"
    using n by (simp add: resolve_not_https strip_prefix_def)
next
  fix b
  assume "b \<in> {buildJupiterSwapUrl ext i out amount, buildRaydiumSwapUrl ext i out amount,
              buildKaminoDepositUrl ext slug amount, buildKaminoWithdrawUrl ext slug amount,
              buildJitoStakeUrl ext amount, buildMagicEdenBuyUrl mint,
              buildTensorBuyFloorUrl collection}"
  then show "prefix ''https://'' b" and "resolve b = Inr b"
    by (auto simp: builders_canonical)
qed

theorem canonical_urls_are_https_witness:
  "resolve ''blink:https://jito.dial.to/stake'' = Inr ''https://jito.dial.to/stake''
   \<and> prefix ''https://'' ''https://jito.dial.to/stake''
   \<and> \<not> prefix ''https://'' ''http://jito.dial.to/stake''
   \<and> resolve ''http://jito.dial.to/stake'' = Inl InvalidUrlKind
   \<and> resolve (''solana-action:'' @ ''http://jito.dial.to/stake'') = Inl InvalidUrlKind
   \<and> resolve (buildKaminoDepositUrl no_ext ''usdc-prime'' (Some (Fin 100)))
        = Inr ''https://kamino.dial.to/api/v0/lend/usdc-prime/deposit?amount=100''"
proof -
  have r: "resolve ''blink:https://jito.dial.to/stake'' = Inr ''https://jito.dial.to/stake''"
    using resolve_blink [of "''https://jito.dial.to/stake''"]
    by (simp add: validate_def isHttpsUrl_def hostOf_def)
  have n: "\<not> prefix ''https://'' ''http://jito.dial.to/stake''
      \<and> \<not> prefix ''solana-action:'' ''http://jito.dial.to/stake''
      \<and> \<not> prefix ''blink:'' ''http://jito.dial.to/stake''"
    by simp
  have k: "buildKaminoDepositUrl no_ext ''usdc-prime'' (Some (Fin 100))
        = ''https://kamino.dial.to/api/v0/lend/usdc-prime/deposit?amount=100''"
    by code_simp
  have m: "buildKaminoDepositUrl no_ext ''usdc-prime'' (Some (Fin 100))
     \<in> {buildJupiterSwapUrl no_ext ''SOL'' ''USDC'' (Some (Fin 100)),
         buildRaydiumSwapUrl no_ext ''SOL'' ''USDC'' (Some (Fin 100)),
         buildKaminoDepositUrl no_ext ''usdc-prime'' (Some (Fin 100)),
         buildKaminoWithdrawUrl no_ext ''usdc-prime'' (Some (Fin 100)),
         buildJitoStakeUrl no_ext (Some (Fin 100)), buildMagicEdenBuyUrl ''mint'',
         buildTensorBuyFloorUrl ''collection''}"
    by simp
  show ?thesis
    using canonical_urls_are_https [of "''blink:https://jito.dial.to/stake''"
        "''http://jito.dial.to/stake''" no_ext "''SOL''" "''USDC''" "Some (Fin 100)"
        "''usdc-prime''" "''mint''" "''collection''"] r n k m
    by (simp del: insert_iff)
qed

section \<open>Exit codes\<close>

lemma filter_and_then:
  "filter P (snd (and_then m f)) =
     filter P (snd m) @ (case fst m of Inl e \<Rightarrow> [] | Inr a \<Rightarrow> filter P (snd (f a)))"
  by (simp add: snd_and_then split: sum.splits)

lemma fst_attempt: "fst (attempt m d) = Inr (case fst m of Inl e \<Rightarrow> d | Inr a \<Rightarrow> a)"
  by (simp add: attempt_def split: prod.splits sum.splits)

lemma snd_attempt: "snd (attempt m d) = snd m"
  by (simp add: attempt_def split: prod.splits sum.splits)

lemma no_error_simps:
  "filter is_Error (snd (calling c r)) = []"
  "filter is_Error (snd (emit (Info s))) = []"
  "filter is_Error (snd (emit (Success s))) = []"
  "filter is_Error (snd (emit (Print p))) = []"
  "filter is_Error (snd (emit_all (map Info ss))) = []"
  "filter is_Error (snd skip) = []"
  "filter is_Error (snd (value_of a)) = []"
  by (simp_all add: calling_def emit_def emit_all_def skip_def value_of_def filter_empty_conv)

lemmas no_error_steps = filter_and_then fst_and_then fst_calling fst_emit snd_attempt no_error_simps

lemma build_params_no_error: "filter is_Error (snd (build_params env opts)) = []"
  by (simp add: build_params_def no_error_steps Let_def split: option.splits sum.splits)

lemma execute_action_no_error: "filter is_Error (snd (execute_action env url opts)) = []"
  by (simp add: execute_action_def no_error_steps build_params_no_error split: sum.splits)

lemma inspect_action_no_error: "filter is_Error (snd (inspect_action env url)) = []"
  by (simp add: inspect_action_def no_error_steps split: sum.splits)

lemma protocol_action_no_error: "filter is_Error (snd (protocol_action env req dryRun)) = []"
  by (simp add: protocol_action_def no_error_steps split: sum.splits)

lemma wallet_address_action_no_error: "filter is_Error (snd (wallet_address_action env)) = []"
  by (simp add: wallet_address_action_def no_error_steps split: sum.splits)

lemma wallet_balance_action_no_error:
  "filter is_Error (snd (wallet_balance_action env opt_wallet)) = []"
  by (simp add: wallet_balance_action_def no_error_steps split: sum.splits option.splits)

lemma status_action_no_error: "filter is_Error (snd (status_action env)) = []"
  by (simp add: status_action_def no_error_steps split: sum.splits)

lemma command_action_no_error: "filter is_Error (snd (command_action env cmd)) = []"
  by (cases cmd)
    (simp_all add: Let_def execute_action_no_error inspect_action_no_error
      protocol_action_no_error wallet_address_action_no_error wallet_balance_action_no_error
      status_action_no_error protocols_action_def trusted_hosts_action_def no_error_simps)

lemma execute_report_errors: "filter is_Error (execute_report env e) = execute_report env e"
  by (simp add: execute_report_def split: option.splits)

lemma catching_failed:
  assumes "fst body = Inl e" and "filter is_Error (snd body) = []"
  shows "exit_code (catching env body) = 1"
    and "filter is_Error (events (catching env body)) = [Error (err_message env e)]"
  using assms by (cases body; simp add: catching_def)+

lemma catching_done:
  assumes "fst body = Inr ()" and "filter is_Error (snd body) = []"
  shows "exit_code (catching env body) = 0"
    and "filter is_Error (events (catching env body)) = []"
  using assms by (cases body; simp add: catching_def)+

lemma execute_command_failed:
  assumes "fst (execute_action env url opts) = Inl e"
  shows "exit_code (execute_command env url opts) = 1"
    and "filter is_Error (events (execute_command env url opts)) = execute_report env e"
  using assms execute_action_no_error [of env url opts]
  by (cases "execute_action env url opts"; simp add: execute_command_def execute_report_errors)+

lemma execute_command_done:
  assumes "fst (execute_action env url opts) = Inr ()"
  shows "exit_code (execute_command env url opts) = 0"
    and "filter is_Error (events (execute_command env url opts)) = []"
  using assms execute_action_no_error [of env url opts]
  by (cases "execute_action env url opts"; simp add: execute_command_def)+

lemma run_command_failed:
  assumes "fst (command_action env cmd) = Inl e"
  shows "exit_code (run_command env cmd) = 1"
    and "hd (filter is_Error (events (run_command env cmd))) = Error (err_message env e)"
proof -
  have "exit_code (run_command env cmd) = 1
    \<and> hd (filter is_Error (events (run_command env cmd))) = Error (err_message env e)"
  proof (cases cmd)
    case (ExecuteUrl url opts)
    then show ?thesis
      using assms execute_command_failed [of env url opts e]
      by (simp add: execute_report_def)
  next
    case Protocols
    then show ?thesis using assms by (simp add: protocols_action_def emit_def)
  next
    case TrustedHosts
    then show ?thesis using assms by (simp add: trusted_hosts_action_def emit_def)
  qed (use assms catching_failed [of "command_action env cmd" e env]
         command_action_no_error [of env cmd] in \<open>simp_all del: command_action.simps\<close>)
  then show "exit_code (run_command env cmd) = 1"
    and "hd (filter is_Error (events (run_command env cmd))) = Error (err_message env e)"
    by simp_all
qed

lemma run_command_done:
  assumes "fst (command_action env cmd) = Inr ()"
  shows "exit_code (run_command env cmd) = 0"
    and "filter is_Error (events (run_command env cmd)) = []"
proof -
  have "exit_code (run_command env cmd) = 0
    \<and> filter is_Error (events (run_command env cmd)) = []"
  proof (cases cmd)
    case (ExecuteUrl url opts)
    then show ?thesis
      using assms execute_command_done [of env url opts] by simp
  next
    case Protocols
    then show ?thesis by (simp add: protocols_action_def emit_def)
  next
    case TrustedHosts
    then show ?thesis by (simp add: trusted_hosts_action_def emit_def)
  qed (use assms catching_done [of "command_action env cmd" env]
         command_action_no_error [of env cmd] in \<open>simp_all del: command_action.simps\<close>)
  then show "exit_code (run_command env cmd) = 0"
    and "filter is_Error (events (run_command env cmd)) = []"
    by simp_all
qed

lemma inspect_action_failed:
  "getConnection env = Inr connection \<Longrightarrow> blinks_inspect env url = Inl e \<Longrightarrow>
   inspect_action env url = (Inl e, [Call GetConnection, Call (Inspect url)])"
  by (simp add: inspect_action_def and_then_def calling_def)

text \<open>
  C7. Every command ends with exit code 0 when its action completes and with exit code 1
  when its action throws, and in the second case the first line written through \<open>error\<close>
  is the message of the error. In particular a GET answered with HTTP 404 makes
  \<open>getMetadata\<close> fail with \<open>ActionFetchError\<close> of status code 404, and when \<open>inspect\<close>
  fails with that error the command writes its message and the process exits with 1.
\<close>

theorem commands_exit_codes:
  fixes env :: "'e collaborators" and kenv :: "error_kind collaborators"
  shows
  "(\<forall>e. fst (command_action env cmd) = Inl e \<longrightarrow>
        exit_code (run_command env cmd) = 1
        \<and> hd (filter is_Error (events (run_command env cmd))) = Error (err_message env e))
   \<and> (fst (command_action env cmd) = Inr () \<longrightarrow>
        exit_code (run_command env cmd) = 0
        \<and> filter is_Error (events (run_command env cmd)) = [])
   \<and> (\<forall>body. http_get canonicalUrl = Reply 404 body \<longrightarrow>
        getMetadata http_get decode canonicalUrl = Inl (ActionFetchError 404 body))
   \<and> (\<forall>body connection. getConnection kenv = Inr connection
          \<and> blinks_inspect kenv url = Inl (ActionFetchError 404 body) \<longrightarrow>
        run_command kenv (InspectUrl url) =
          \<lparr>events = [Call GetConnection, Call (Inspect url),
                     Error (err_message kenv (ActionFetchError 404 body))],
           exit_code = 1\<rparr>)"
proof (intro conjI allI impI)
  fix e assume "fst (command_action env cmd) = Inl e"
  then show "exit_code (run_command env cmd) = 1"
    and "hd (filter is_Error (events (run_command env cmd))) = Error (err_message env e)"
    by (rule run_command_failed)+
next
  assume "fst (command_action env cmd) = Inr ()"
  then show "exit_code (run_command env cmd) = 0"
    and "filter is_Error (events (run_command env cmd)) = []"
    by (rule run_command_done)+
next
  fix body assume "http_get canonicalUrl = Reply 404 body"
  then show "getMetadata http_get decode canonicalUrl = Inl (ActionFetchError 404 body)"
    by (simp add: getMetadata_def)
next
  fix body connection
  assume "getConnection kenv = Inr connection
    \<and> blinks_inspect kenv url = Inl (ActionFetchError 404 body)"
  then show "run_command kenv (InspectUrl url) =
          \<lparr>events = [Call GetConnection, Call (Inspect url),
                     Error (err_message kenv (ActionFetchError 404 body))],
           exit_code = 1\<rparr>"
    by (simp add: catching_def inspect_action_failed)
qed


theorem commands_exit_codes_witness:
  "not_found ''https://jito.dial.to/stake'' = Reply 404 ''Not Found''
   \<and> getMetadata not_found any_body ''https://jito.dial.to/stake''
        = Inl (ActionFetchError 404 ''Not Found'')
   \<and> getConnection (sample_env deny_registry) = Inr sample_connection
   \<and> blinks_inspect (sample_env deny_registry) ''https://jito.dial.to/stake''
        = Inl (ActionFetchError 404 ''Not Found'')
   \<and> fst (command_action (sample_env deny_registry) (InspectUrl ''https://jito.dial.to/stake''))
        = Inl (ActionFetchError 404 ''Not Found'')
   \<and> run_command (sample_env deny_registry) (InspectUrl ''https://jito.dial.to/stake'')
        = \<lparr>events = [Call GetConnection, Call (Inspect ''https://jito.dial.to/stake''),
                     Error ''Failed to fetch action''],
           exit_code = 1\<rparr>
   \<and> fst (command_action (sample_env deny_registry)
             (ExecuteUrl ''https://jito.dial.to/stake'' dry_run)) = Inr ()
   \<and> exit_code (run_command (sample_env deny_registry)
                   (ExecuteUrl ''https://jito.dial.to/stake'' dry_run)) = 0
   \<and> fst (command_action (sample_env deny_registry) (JitoStake ''1'' False)) = Inr ()
   \<and> exit_code (run_command (sample_env deny_registry) (JitoStake ''1'' False)) = 0"
proof -
  let ?env = "sample_env deny_registry"
  let ?url = "''https://jito.dial.to/stake''"
  have g: "not_found ?url = Reply 404 ''Not Found''"
    by (simp add: not_found_def)
  have c: "getConnection ?env = Inr sample_connection
      \<and> blinks_inspect ?env ?url = Inl (ActionFetchError 404 ''Not Found'')"
    by (simp add: sample_env_fields)
  have i: "fst (command_action ?env (InspectUrl ?url)) = Inl (ActionFetchError 404 ''Not Found'')"
    by (simp add: inspect_action_def fst_and_then fst_calling sample_env_fields)
  have x: "fst (command_action ?env (ExecuteUrl ?url dry_run)) = Inr ()"
    by (simp add: execute_action_def fst_and_then fst_calling fst_emit skip_def sample_params
        sample_env_fields sample_opts)
  have j: "fst (command_action ?env (JitoStake ''1'' False)) = Inr ()"
    by (simp add: protocol_action_def fst_and_then fst_calling fst_emit emit_all_def
        sample_env_fields)
  show ?thesis
    using commands_exit_codes [of ?env "InspectUrl ?url" not_found ?url any_body ?env ?url]
      commands_exit_codes [of ?env "ExecuteUrl ?url dry_run" not_found ?url any_body ?env ?url]
      commands_exit_codes [of ?env "JitoStake ''1'' False" not_found ?url any_body ?env ?url]
      g c i x j
    by (simp add: sample_env_fields del: command_action.simps run_command.simps)
qed

end
